theory Spec2Isabelle
  imports Main "HOL-Library.Word"
begin

section \<open>ProtectionController of hasplayer.js: data model\<close>

text \<open>
  The development embeds \<^verbatim>\<open>app/js/streaming/protection/ProtectionController.js\<close>.
  The controller is a closure over the variables \<^verbatim>\<open>pendingNeedKeyData\<close>, \<^verbatim>\<open>audioCodec\<close>,
  \<^verbatim>\<open>videoCodec\<close>, \<^verbatim>\<open>protDataSet\<close>, \<^verbatim>\<open>xhrLicense\<close> and \<^verbatim>\<open>initialized\<close> (and \<^verbatim>\<open>keySystems\<close>,
  which \<^verbatim>\<open>setup\<close> writes and nothing reads), plus the properties of the object it returns
  (\<^verbatim>\<open>keySystem\<close>, \<^verbatim>\<open>protectionModel\<close>, ...). Both become fields of one record; every
  function takes the record and returns the updated one.

  Each call the controller makes on a collaborator (the event bus, the fault channel
  \<^verbatim>\<open>notify\<close>, the protection model, an \<^verbatim>\<open>XMLHttpRequest\<close>) is appended to the field
  \<open>trace\<close>, in program order. Calls to \<^verbatim>\<open>this.debug.log/warn/error\<close> only write to the
  diagnostic console and are left out. The two polyfills at the head of the file act only
  on hosts without \<^verbatim>\<open>ArrayBuffer.isView\<close> and \<^verbatim>\<open>ArrayBuffer.prototype.slice\<close>; the model is
  of a host that has both.
\<close>

type_synonym bytes = "8 word list"

text \<open>A key-system object is compared by identity (\<^verbatim>\<open>===\<close>); \<open>ksref\<close> is that identity.\<close>

type_synonym ksref = nat

text \<open>
  The value of \<^verbatim>\<open>this.keySystem\<close>: \<^verbatim>\<open>undefined\<close> (no selection yet), \<^verbatim>\<open>null\<close> (selection
  in progress) or a key-system object (selected).
\<close>

datatype ksval = KsUndefined | KsNull | KsObj ksref

text \<open>An element of a \<^verbatim>\<open>supportedKS\<close> array: \<^verbatim>\<open>{ks, initData, cdmData}\<close>.\<close>

record candidate =
  ks :: ksref
  initData :: bytes
  cdmData :: "bytes option"

text \<open>
  \<^verbatim>\<open>protData.serverURL\<close> is a string or an object keyed by message type; an absent
  property reads as \<^verbatim>\<open>undefined\<close> (\<open>None\<close>).
\<close>

datatype server_url = URLString string | URLMap "string \<rightharpoonup> string"

record ProtectionData =
  serverURL :: "server_url option"
  laURL :: "string option"
  httpRequestHeaders :: "(string \<times> string) list option"
  withCredentials :: bool

record sessionToken =
  sessionID :: string
  tokenInitData :: bytes

text \<open>The payload \<^verbatim>\<open>e.data\<close> of a key-message event.\<close>

record keyMessage =
  messageType :: "string option"
  message :: "bytes option"
  sessionToken :: sessionToken
  defaultURL :: "string option"

text \<open>The payload of a need-key event; a typed-array view is replaced by its buffer.\<close>

datatype initDataArg = ArrayBuffer bytes | ArrayBufferView bytes

record needKey =
  initDataType :: string
  needKeyInitData :: initDataArg

record keySystemAccess =
  accessKeySystem :: ksref
  ksConfiguration :: string

text \<open>
  The event of \<^verbatim>\<open>ENAME_KEY_SYSTEM_ACCESS_COMPLETE\<close>: \<^verbatim>\<open>event.error\<close> and
  \<^verbatim>\<open>event.data\<close>, each possibly absent.
\<close>

record accessEvent =
  accessError :: "string option"
  accessData :: "keySystemAccess option"

text \<open>A thrown JavaScript exception: \<^verbatim>\<open>ex.code\<close>, \<^verbatim>\<open>ex.name\<close>, \<^verbatim>\<open>ex.message\<close>.\<close>

datatype jsError = JsError "string option" string string

text \<open>
  The license-service descriptor returned by \<^verbatim>\<open>protectionExt.getLicenseServer\<close>. Its
  methods live in other files of the repository and are parameters here.
\<close>

record licenseServer =
  getServerURLFromMessage :: "string option \<Rightarrow> bytes \<Rightarrow> string \<Rightarrow> string option"
  getHTTPMethod :: "string \<Rightarrow> string"
  getResponseType :: "string \<Rightarrow> string \<Rightarrow> string"
  getLicenseMessage :: "bytes option \<Rightarrow> string \<Rightarrow> string \<Rightarrow> bytes option"
  getErrorResponse :: "bytes \<Rightarrow> string"

type_synonym contentProtection = "string list"

text \<open>
  The collaborators whose code is not in this file: the key-system objects, the protection
  extensions, \<^verbatim>\<open>CommonEncryption\<close>, and whether the protection model's
  \<^verbatim>\<open>createKeySession\<close> throws. \<open>typeErrorMessage\<close> is the host's text for a read of a
  property of \<^verbatim>\<open>undefined\<close>.
\<close>

record env =
  systemString :: "ksref \<Rightarrow> string"
  schemeIdURI :: "ksref \<Rightarrow> string"
  getKeySystemConfigurations :: "ksref \<Rightarrow> string option \<Rightarrow> string option \<Rightarrow> string \<Rightarrow> string"
  getLicenseServerURLFromInitData :: "ksref \<Rightarrow> bytes \<Rightarrow> string option"
  getRequestHeadersFromMessage :: "ksref \<Rightarrow> bytes \<Rightarrow> (string \<times> string) list option"
  getLicenseRequestFromMessage :: "ksref \<Rightarrow> bytes \<Rightarrow> bytes option"
  getSupportedKeySystems :: "bytes \<Rightarrow> candidate list"
  getSupportedKeySystemsFromContentProtection :: "contentProtection \<Rightarrow> candidate list option"
  getLicenseServer :: "ksref \<Rightarrow> ProtectionData option \<Rightarrow> string \<Rightarrow> licenseServer option"
  isClearKey :: "ksref \<Rightarrow> bool"
  processClearKeyLicenseRequest :: "ProtectionData option \<Rightarrow> bytes \<Rightarrow> bytes option"
  getPSSHForKeySystem :: "ksval \<Rightarrow> bytes \<Rightarrow> bytes option"
  getPSSHData :: "bytes \<Rightarrow> bytes"
  modelCreateKeySessionThrows :: "bytes \<Rightarrow> string \<Rightarrow> bytes option \<Rightarrow> jsError option"
  typeErrorMessage :: string

subsection \<open>Calls on collaborators\<close>

datatype eventName =
    ENAME_NEED_KEY | ENAME_KEY_MESSAGE | ENAME_KEY_ADDED | ENAME_KEY_ERROR
  | ENAME_KEY_SESSION_CREATED | ENAME_KEY_SESSION_CLOSED | ENAME_KEY_SESSION_REMOVED
  | ENAME_KEY_STATUSES_CHANGED | ENAME_SERVER_CERTIFICATE_UPDATED
  | ENAME_KEY_SYSTEM_ACCESS_COMPLETE | ENAME_KEY_SYSTEM_SELECTED

text \<open>
  A subscriber of the protection model: the controller itself, or one of the listener
  objects \<^verbatim>\<open>ksAccess\<close> / \<^verbatim>\<open>ksSelected\<close> that \<^verbatim>\<open>selectKeySystem\<close> builds.
\<close>

datatype subscriber = This | KsAccess nat | KsSelected nat

datatype errorCode =
    MEDIA_KEYSYSERR_ACCESS_DENIED | MEDIA_KEYMESSERR_NO_CHALLENGE
  | MEDIA_KEYMESSERR_URL_LICENSER_UNKNOWN | MEDIA_KEYMESSERR_LICENSER_ERROR
  | MEDIA_KEYERR_SERVER_CERTIFICATE | MEDIA_KEYMESSERR_NO_SESSION | GatewayCode string

text \<open>
  The third argument of \<^verbatim>\<open>MediaPlayer.vo.Error\<close>: nothing, \<^verbatim>\<open>{keySystems: [...]}\<close> as pairs
  (schemeIdURI, systemString), \<^verbatim>\<open>{url, status, error}\<close>, or a value passed through.
\<close>

datatype errorData =
    NoData | KeySystems "(string \<times> string) list" | LicenserData string int string
  | PassedData string

datatype mediaElement = ElementUndefined | ElementNull | Element nat

datatype effect =
    DispatchKeySystemSelected "keySystemAccess option" "string option"
  | DispatchKeyMessage keyMessage
  | ProtectionError errorCode string errorData
  | NotifyKeySessionCreated string "jsError option"
  | ModelInit
  | ModelSubscribe eventName subscriber bool
  | ModelUnsubscribe eventName subscriber
  | ModelRequestKeySystemAccess "(ksref \<times> string) list"
  | ModelSelectKeySystem keySystemAccess
  | ModelCreateKeySession bytes string "bytes option"
  | ModelUpdateKeySession sessionToken bytes
  | ModelLoadKeySession string
  | ModelRemoveKeySession sessionToken
  | ModelCloseKeySession sessionToken
  | ModelSetServerCertificate bytes
  | ModelSetMediaElement mediaElement
  | ModelTeardown
  | ExtInit "(string \<rightharpoonup> ProtectionData) option"
  | XhrNew nat
  | XhrOpen nat string string
  | XhrResponseType nat string
  | XhrWithCredentials nat
  | XhrSetRequestHeader nat string string
  | XhrSend nat "bytes option"
  | XhrAbort nat
  | BusAddEventListener string nat
  | BusRemoveEventListener string nat
  | UncaughtTypeError

subsection \<open>Closures and the controller state\<close>

text \<open>
  The variables that the handlers of one \<^verbatim>\<open>XMLHttpRequest\<close> capture from the call of
  \<^verbatim>\<open>onKeyMessage\<close> that created it.
\<close>

record licenseClosure =
  url :: string
  needFailureReport :: bool
  licenseServerData :: licenseServer
  closureSessionToken :: sessionToken
  keySystemString :: string
  closureMessageType :: string

text \<open>
  An \<^verbatim>\<open>XMLHttpRequest\<close> object: the property \<^verbatim>\<open>aborted\<close> that \<^verbatim>\<open>teardown\<close> sets, and its
  handlers once \<^verbatim>\<open>onKeyMessage\<close> has attached them.
\<close>

record xhr =
  aborted :: bool
  handlers :: "licenseClosure option"

text \<open>
  What the listener \<^verbatim>\<open>ksSelected\<close> captures from its call of \<^verbatim>\<open>selectKeySystem\<close>;
  \<^verbatim>\<open>keySystemAccess\<close> is written by one handler and read by the other.
\<close>

record selectedClosure =
  fromManifest :: bool
  keySystemsInfo :: "(string \<times> string) list"
  closureAccess :: "keySystemAccess option"

record controller =
  keySystem :: ksval
  keysystem :: ksval
  protectionModel :: bool
  pendingNeedKeyData :: "candidate list list"
  audioCodec :: "string option"
  videoCodec :: "string option"
  protDataSet :: "(string \<rightharpoonup> ProtectionData) option"
  xhrLicense :: "nat option"
  initialized :: bool
  sessionType :: "ksref \<Rightarrow> string"
  ksAccessListeners :: "candidate list"
  ksSelectedListeners :: "selectedClosure list"
  requests :: "xhr list"
  allInitData :: "bytes list"
  trace :: "effect list"

text \<open>
  \<open>keySystem\<close> is \<^verbatim>\<open>this.keySystem\<close>; \<open>keysystem\<close> is \<^verbatim>\<open>this.keysystem\<close>, which
  \<^verbatim>\<open>setSessionType\<close> reads and the object literal does not declare. \<open>protectionModel\<close>
  tells whether \<^verbatim>\<open>this.protectionModel\<close> is set (\<^verbatim>\<open>teardown\<close> clears it). \<open>sessionType\<close>
  holds the property \<^verbatim>\<open>sessionType\<close> of every key-system object. \<open>requests\<close> holds every
  \<^verbatim>\<open>XMLHttpRequest\<close> the controller created, \<open>xhrLicense\<close> indexes the tracked one.

  Modelled from the spec: \<open>allInitData\<close> is what \<^verbatim>\<open>protectionModel.getAllInitData()\<close>
  returns, the initialization payloads associated with open sessions; a session-create
  call that does not throw adds its payload (the protection model is not in this file).
\<close>

text \<open>
  A function of the controller either returns or lets a \<^verbatim>\<open>TypeError\<close> escape (a read
  of a property of \<^verbatim>\<open>this.keySystem\<close> or \<^verbatim>\<open>this.protectionModel\<close> while it is not an
  object). The state at the throw is kept: assignments made before it stay.
\<close>

datatype outcome = Returned controller | TypeError controller

fun andThen :: "outcome \<Rightarrow> (controller \<Rightarrow> outcome) \<Rightarrow> outcome" where
  "andThen (Returned s) f = f s"
| "andThen (TypeError s) f = TypeError s"

definition emit :: "effect list \<Rightarrow> controller \<Rightarrow> controller" where
  "emit es s = s\<lparr>trace := trace s @ es\<rparr>"

text \<open>A sequence of calls on \<^verbatim>\<open>this.protectionModel\<close>.\<close>

definition onModel :: "effect list \<Rightarrow> controller \<Rightarrow> outcome" where
  "onModel es s = (if protectionModel s then Returned (emit es s) else TypeError s)"

text \<open>The state after the constructor and \<^verbatim>\<open>setup()\<close>, given the key systems' session types.\<close>

definition subscriptions :: "eventName list" where
  "subscriptions =
     [ENAME_SERVER_CERTIFICATE_UPDATED, ENAME_KEY_ADDED, ENAME_KEY_ERROR,
      ENAME_KEY_SESSION_CREATED, ENAME_KEY_SESSION_CLOSED, ENAME_KEY_SESSION_REMOVED,
      ENAME_KEY_MESSAGE, ENAME_KEY_STATUSES_CHANGED]"

definition construct :: "(ksref \<Rightarrow> string) \<Rightarrow> controller" where
  "construct types =
     \<lparr>keySystem = KsUndefined, keysystem = KsUndefined, protectionModel = False,
      pendingNeedKeyData = [], audioCodec = None, videoCodec = None, protDataSet = None,
      xhrLicense = None, initialized = False, sessionType = types,
      ksAccessListeners = [], ksSelectedListeners = [], requests = [], allInitData = [],
      trace = []\<rparr>"

definition setup_controller :: "controller \<Rightarrow> outcome" where
  "setup_controller s =
     Returned (emit (ModelInit # map (\<lambda>e. ModelSubscribe e This False) subscriptions)
                 (s\<lparr>protectionModel := True\<rparr>))"


section \<open>Key-system selection and key sessions\<close>

text \<open>JavaScript truthiness of a string that may be absent: present and not empty.\<close>

definition truthy :: "string option \<Rightarrow> bool" where
  "truthy u = (case u of None \<Rightarrow> False | Some v \<Rightarrow> v \<noteq> [])"

definition getProtData :: "env \<Rightarrow> ksref \<Rightarrow> controller \<Rightarrow> ProtectionData option" where
  "getProtData E k s =
     (case protDataSet s of None \<Rightarrow> None | Some m \<Rightarrow> m (systemString E k))"

text \<open>
  Modelled from the spec: \<^verbatim>\<open>protectionExt.initDataEquals\<close> is not in this file. The spec
  has the comparison "by byte equality": the same length and the same byte at each index.
\<close>

fun initDataEquals :: "bytes \<Rightarrow> bytes \<Rightarrow> bool" where
  "initDataEquals [] [] = True"
| "initDataEquals (x # xs) (y # ys) = (if x = y then initDataEquals xs ys else False)"
| "initDataEquals [] (y # ys) = False"
| "initDataEquals (x # xs) [] = False"

text \<open>The loop of \<^verbatim>\<open>createKeySession\<close> over \<^verbatim>\<open>currentInitData\<close> (lines 652-660).\<close>

fun seenInitData :: "bytes \<Rightarrow> bytes list \<Rightarrow> bool" where
  "seenInitData p [] = False"
| "seenInitData p (q # qs) = (if initDataEquals p q then True else seenInitData p qs)"

text \<open>
  \<^verbatim>\<open>createKeySession\<close> (lines 642-675). \<^verbatim>\<open>getAllInitData\<close> is called outside the
  \<^verbatim>\<open>try\<close>, so a missing protection model escapes as a \<^verbatim>\<open>TypeError\<close>; the read of
  \<^verbatim>\<open>this.keySystem.sessionType\<close> is inside it, so it ends in the \<^verbatim>\<open>catch\<close>.
\<close>

definition createKeySession :: "env \<Rightarrow> bytes \<Rightarrow> bytes option \<Rightarrow> controller \<Rightarrow> outcome" where
  "createKeySession E d cdm s =
     (case getPSSHForKeySystem E (keySystem s) d of
        Some initDataForKS \<Rightarrow>
          if \<not> protectionModel s then TypeError s
          else if seenInitData initDataForKS (allInitData s) then Returned s
          else
            (case keySystem s of
               KsObj k \<Rightarrow>
                 (case modelCreateKeySessionThrows E initDataForKS (sessionType s k) cdm of
                    None \<Rightarrow>
                      Returned (emit [ModelCreateKeySession initDataForKS (sessionType s k) cdm]
                                  (s\<lparr>allInitData := allInitData s @ [initDataForKS]\<rparr>))
                  | Some ex \<Rightarrow>
                      Returned (emit [ModelCreateKeySession initDataForKS (sessionType s k) cdm,
                                      NotifyKeySessionCreated
                                        ''Create key session raised en exception'' (Some ex)] s))
             | KsNull \<Rightarrow>
                 Returned (emit [NotifyKeySessionCreated ''Create key session raised en exception''
                                   (Some (JsError None ''TypeError'' (typeErrorMessage E)))] s)
             | KsUndefined \<Rightarrow>
                 Returned (emit [NotifyKeySessionCreated ''Create key session raised en exception''
                                   (Some (JsError None ''TypeError'' (typeErrorMessage E)))] s))
      | None \<Rightarrow>
          (case keySystem s of
             KsObj k \<Rightarrow>
               Returned (emit [NotifyKeySessionCreated
                  (''needkey/encrypted event contains no initData corresponding to that key system ''
                     @ systemString E k) None] s)
           | KsNull \<Rightarrow> TypeError s
           | KsUndefined \<Rightarrow> TypeError s))"

text \<open>
  The loop of the branch "we have a key system" (lines 121-158): the first candidate whose
  \<^verbatim>\<open>ks\<close> is \<^verbatim>\<open>this.keySystem\<close>, where the loop body ends in \<^verbatim>\<open>break\<close>.
\<close>

fun matchSelected :: "ksref \<Rightarrow> candidate list \<Rightarrow> candidate option" where
  "matchSelected k [] = None"
| "matchSelected k (c # cs) = (if k = ks c then Some c else matchSelected k cs)"

definition requested :: "env \<Rightarrow> controller \<Rightarrow> candidate \<Rightarrow> ksref \<times> string" where
  "requested E s c =
     (ks c, getKeySystemConfigurations E (ks c) (videoCodec s) (audioCodec s) (sessionType s (ks c)))"

definition ksInfo :: "env \<Rightarrow> candidate \<Rightarrow> string \<times> string" where
  "ksInfo E c = (schemeIdURI E (ks c), systemString E (ks c))"

text \<open>
  \<^verbatim>\<open>selectKeySystem\<close> (lines 104-236). The listener objects it builds are stored in the
  state under the index used in the subscription; the fourth argument \<^verbatim>\<open>true\<close> of
  \<^verbatim>\<open>subscribe\<close> is the last component of \<open>ModelSubscribe\<close>.
\<close>

definition selectKeySystem :: "env \<Rightarrow> candidate list \<Rightarrow> bool \<Rightarrow> controller \<Rightarrow> outcome" where
  "selectKeySystem E supportedKS manifest s =
     (case keySystem s of
        KsObj k \<Rightarrow>
          (case matchSelected k supportedKS of
             None \<Rightarrow> Returned s
           | Some c \<Rightarrow>
               if protectionModel s then
                 Returned (emit [ModelSubscribe ENAME_KEY_SYSTEM_ACCESS_COMPLETE
                                   (KsAccess (length (ksAccessListeners s))) True,
                                 ModelRequestKeySystemAccess [requested E s c]]
                             (s\<lparr>ksAccessListeners := ksAccessListeners s @ [c]\<rparr>))
               else TypeError s)
      | KsUndefined \<Rightarrow>
          (let s1 = s\<lparr>keySystem := KsNull,
                      pendingNeedKeyData := pendingNeedKeyData s @ [supportedKS]\<rparr>;
               n = length (ksSelectedListeners s)
           in if protectionModel s then
                Returned (emit [ModelSubscribe ENAME_KEY_SYSTEM_SELECTED (KsSelected n) True,
                                ModelSubscribe ENAME_KEY_SYSTEM_ACCESS_COMPLETE (KsSelected n) True,
                                ModelRequestKeySystemAccess (map (requested E s) supportedKS)]
                            (s1\<lparr>ksSelectedListeners := ksSelectedListeners s @
                                   [\<lparr>fromManifest = manifest,
                                     keySystemsInfo = map (ksInfo E) supportedKS,
                                     closureAccess = None\<rparr>]\<rparr>))
              else TypeError s1)
      | KsNull \<Rightarrow>
          Returned (s\<lparr>pendingNeedKeyData := pendingNeedKeyData s @ [supportedKS]\<rparr>))"

text \<open>The handler of the listener \<^verbatim>\<open>ksAccess\<close> (lines 137-153), for the candidate it captured.\<close>

definition ksAccessComplete :: "env \<Rightarrow> candidate \<Rightarrow> accessEvent \<Rightarrow> controller \<Rightarrow> outcome" where
  "ksAccessComplete E c ev s =
     (if truthy (accessError ev) then
        Returned (emit [DispatchKeySystemSelected None
                          (Some (''[DRM] KeySystem Access Denied! -- '' @ the (accessError ev)))] s)
      else
        createKeySession E (initData c) (cdmData c)
          (emit [DispatchKeySystemSelected (accessData ev) None] s))"

text \<open>The fault both failure paths of \<^verbatim>\<open>ksSelected\<close> raise (lines 191-192 and 223-224).\<close>

definition accessDeniedFault :: "selectedClosure \<Rightarrow> effect" where
  "accessDeniedFault cl =
     ProtectionError MEDIA_KEYSYSERR_ACCESS_DENIED ''No KeySystem/CDM available''
       (KeySystems (keySystemsInfo cl))"

definition failureEvent :: "selectedClosure \<Rightarrow> string \<Rightarrow> effect list" where
  "failureEvent cl text =
     (if fromManifest cl then [] else [DispatchKeySystemSelected None (Some text)])"

text \<open>
  The handler of \<^verbatim>\<open>ksSelected\<close> for \<^verbatim>\<open>ENAME_KEY_SYSTEM_ACCESS_COMPLETE\<close> (lines 180-198),
  for the listener stored at index \<open>n\<close>. On success the log line reads
  \<^verbatim>\<open>keySystemAccess.keySystem.systemString\<close>, which throws when \<^verbatim>\<open>event.data\<close> is absent.
\<close>

definition ksSelectedAccessComplete :: "nat \<Rightarrow> accessEvent \<Rightarrow> controller \<Rightarrow> outcome" where
  "ksSelectedAccessComplete n ev s =
     (let cl = ksSelectedListeners s ! n in
      if truthy (accessError ev) then
        andThen (onModel [ModelUnsubscribe ENAME_KEY_SYSTEM_SELECTED (KsSelected n)]
                   (s\<lparr>keySystem := KsUndefined\<rparr>))
          (\<lambda>s1. Returned (emit (failureEvent cl
                   (''[DRM] KeySystem Access Denied! -- '' @ the (accessError ev))
                   @ [accessDeniedFault cl]) s1))
      else
        (let s1 = s\<lparr>ksSelectedListeners :=
                       (ksSelectedListeners s)[n := cl\<lparr>closureAccess := accessData ev\<rparr>]\<rparr>
         in case accessData ev of
              None \<Rightarrow> TypeError s1
            | Some a \<Rightarrow> onModel [ModelSelectKeySystem a] s1))"

text \<open>
  The two nested loops of the success path (lines 207-214). The inner loop ends at the
  first candidate whose \<^verbatim>\<open>ks\<close> is \<^verbatim>\<open>self.keySystem\<close>; the outer loop visits every batch.
  An exception escaping \<^verbatim>\<open>createKeySession\<close> ends both.
\<close>

fun replayBatch :: "env \<Rightarrow> candidate list \<Rightarrow> controller \<Rightarrow> outcome" where
  "replayBatch E [] s = Returned s"
| "replayBatch E (c # cs) s =
     (if keySystem s = KsObj (ks c) then createKeySession E (initData c) (cdmData c) s
      else replayBatch E cs s)"

fun replayPending :: "env \<Rightarrow> candidate list list \<Rightarrow> controller \<Rightarrow> outcome" where
  "replayPending E [] s = Returned s"
| "replayPending E (b # bs) s = andThen (replayBatch E b s) (replayPending E bs)"

text \<open>
  The handler of \<^verbatim>\<open>ksSelected\<close> for \<^verbatim>\<open>ENAME_KEY_SYSTEM_SELECTED\<close> (lines 199-227).
  \<open>modelKs\<close> is the value of \<^verbatim>\<open>self.protectionModel.keySystem\<close> when the handler runs.
\<close>

definition ksSelectedSelected ::
  "env \<Rightarrow> nat \<Rightarrow> string option \<Rightarrow> ksval \<Rightarrow> controller \<Rightarrow> outcome" where
  "ksSelectedSelected E n err modelKs s =
     (let cl = ksSelectedListeners s ! n in
      if \<not> truthy err then
        if protectionModel s then
          replayPending E (pendingNeedKeyData s)
            (emit [DispatchKeySystemSelected (closureAccess cl) None] (s\<lparr>keySystem := modelKs\<rparr>))
        else TypeError s
      else
        Returned (emit (failureEvent cl (''[DRM] Error selecting key system! -- '' @ the err)
                        @ [accessDeniedFault cl])
                    (s\<lparr>keySystem := KsUndefined\<rparr>)))"


section \<open>License acquisition\<close>

text \<open>
  The license server URL taken from the protection data (lines 299-311); \<open>None\<close> is the
  initial \<^verbatim>\<open>null\<close>. The deprecated \<^verbatim>\<open>laURL\<close> is the \<^verbatim>\<open>else\<close> of the test of
  \<^verbatim>\<open>protData.serverURL\<close>, and an empty string is not a truthy \<^verbatim>\<open>serverURL\<close>.
\<close>

definition legacyURL :: "ProtectionData \<Rightarrow> string option" where
  "legacyURL pd = (if truthy (laURL pd) then laURL pd else None)"

definition configuredURL :: "ProtectionData option \<Rightarrow> string \<Rightarrow> string option" where
  "configuredURL protData mt =
     (case protData of
        None \<Rightarrow> None
      | Some pd \<Rightarrow>
          (case serverURL pd of
             None \<Rightarrow> legacyURL pd
           | Some (URLString u) \<Rightarrow> if u \<noteq> [] then Some u else legacyURL pd
           | Some (URLMap m) \<Rightarrow> (case m mt of Some u \<Rightarrow> Some u | None \<Rightarrow> None)))"

text \<open>Lines 313-320: the fallbacks taken only while \<^verbatim>\<open>url === null\<close>, then the descriptor.\<close>

definition licenseServerURL ::
  "env \<Rightarrow> ksref \<Rightarrow> ProtectionData option \<Rightarrow> licenseServer \<Rightarrow> keyMessage \<Rightarrow> string \<Rightarrow> bytes
     \<Rightarrow> string option" where
  "licenseServerURL E k protData lsd km mt m =
     (let url1 =
        (case configuredURL protData mt of
           Some u \<Rightarrow> Some u
         | None \<Rightarrow>
             (let fromInitData =
                    getLicenseServerURLFromInitData E k
                      (getPSSHData E (tokenInitData (sessionToken km)))
              in if truthy fromInitData then fromInitData else defaultURL km))
      in getServerURLFromMessage lsd url1 m mt)"

definition toLowerCase :: "string \<Rightarrow> string" where
  "toLowerCase =
     map (\<lambda>c. case map_of (zip ''ABCDEFGHIJKLMNOPQRSTUVWXYZ'' ''abcdefghijklmnopqrstuvwxyz'') c of
                 Some l \<Rightarrow> l | None \<Rightarrow> c)"

text \<open>\<^verbatim>\<open>updateHeaders\<close> (lines 372-382) on the request \<open>x\<close>, for a header object that is set.\<close>

fun updateHeaders :: "nat \<Rightarrow> (string \<times> string) list \<Rightarrow> effect list" where
  "updateHeaders x [] = []"
| "updateHeaders x ((key, v) # hs) =
     (if toLowerCase key = ''authorization'' then [XhrWithCredentials x] else [])
     @ [XhrSetRequestHeader x key v] @ updateHeaders x hs"

definition headersOf :: "nat \<Rightarrow> (string \<times> string) list option \<Rightarrow> effect list" where
  "headersOf x headers = (case headers of None \<Rightarrow> [] | Some hs \<Rightarrow> updateHeaders x hs)"

definition noChallenge :: "string \<Rightarrow> effect" where
  "noChallenge text = ProtectionError MEDIA_KEYMESSERR_NO_CHALLENGE text NoData"

text \<open>
  Lines 296-399 of \<^verbatim>\<open>onKeyMessage\<close>: the part that needs a remote license server. The new
  request is stored at index \<open>x\<close> and becomes the tracked one before the URL is known.
  After the fault for a \<^verbatim>\<open>null\<close> license request there is no \<^verbatim>\<open>return\<close>: line 399 runs.
\<close>

definition sendLicenseRequest ::
  "env \<Rightarrow> ksref \<Rightarrow> ProtectionData option \<Rightarrow> licenseServer \<Rightarrow> keyMessage \<Rightarrow> string \<Rightarrow> bytes
     \<Rightarrow> controller \<Rightarrow> outcome" where
  "sendLicenseRequest E k protData lsd km mt m s =
     (let x = length (requests s);
          s1 = emit [XhrNew x]
                 (s\<lparr>requests := requests s @ [\<lparr>aborted = False, handlers = None\<rparr>],
                    xhrLicense := Some x\<rparr>);
          u = licenseServerURL E k protData lsd km mt m
      in if \<not> truthy u then
           Returned (emit [ProtectionError MEDIA_KEYMESSERR_URL_LICENSER_UNKNOWN
                             ''No license server URL specified'' NoData] s1)
         else
           (let cl = \<lparr>url = the u, needFailureReport = True, licenseServerData = lsd,
                      closureSessionToken = sessionToken km,
                      keySystemString = systemString E k, closureMessageType = mt\<rparr>;
                licenseRequest = getLicenseRequestFromMessage E k m
            in Returned
                 (emit ([XhrOpen x (getHTTPMethod lsd mt) (the u),
                         XhrResponseType x (getResponseType lsd (systemString E k) mt)]
                        @ (case protData of
                             None \<Rightarrow> [] | Some pd \<Rightarrow> headersOf x (httpRequestHeaders pd))
                        @ headersOf x (getRequestHeadersFromMessage E k m)
                        @ (case protData of
                             None \<Rightarrow> []
                           | Some pd \<Rightarrow> if withCredentials pd then [XhrWithCredentials x] else [])
                        @ (case licenseRequest of
                             None \<Rightarrow> [noChallenge ''No license challenge from CDM key message'']
                           | Some r \<Rightarrow> [])
                        @ [XhrSend x licenseRequest])
                    (s1\<lparr>requests :=
                          (requests s1)[x := \<lparr>aborted = False, handlers = Some cl\<rparr>]\<rparr>))))"

text \<open>
  \<^verbatim>\<open>onKeyMessage\<close> (lines 245-400). The key message is dispatched first; line 263 then
  reads \<^verbatim>\<open>this.keySystem.systemString\<close>.
\<close>

definition onKeyMessage :: "env \<Rightarrow> keyMessage \<Rightarrow> controller \<Rightarrow> outcome" where
  "onKeyMessage E km s =
     (let mt = (if truthy (messageType km) then the (messageType km) else ''license-request'');
          s1 = emit [DispatchKeyMessage km] s
      in case keySystem s of
           KsUndefined \<Rightarrow> TypeError s1
         | KsNull \<Rightarrow> TypeError s1
         | KsObj k \<Rightarrow>
             (let protData = getProtData E k s in
              case message km of
                None \<Rightarrow> Returned (emit [noChallenge ''Empty key message from CDM''] s1)
              | Some m \<Rightarrow>
                  if length m = 0 then
                    Returned (emit [noChallenge ''Empty key message from CDM''] s1)
                  else
                    (case getLicenseServer E k protData mt of
                       None \<Rightarrow> Returned s1
                     | Some lsd \<Rightarrow>
                         if isClearKey E k then
                           (case processClearKeyLicenseRequest E protData m of
                              Some clearkeys \<Rightarrow>
                                onModel [ModelUpdateKeySession (sessionToken km) clearkeys] s1
                            | None \<Rightarrow> sendLicenseRequest E k protData lsd km mt m s1)
                         else sendLicenseRequest E k protData lsd km mt m s1)))"

definition setNeedFailureReport :: "nat \<Rightarrow> licenseClosure \<Rightarrow> bool \<Rightarrow> controller \<Rightarrow> controller" where
  "setNeedFailureReport x cl b s =
     s\<lparr>requests := (requests s)[x := (requests s ! x)\<lparr>handlers := Some (cl\<lparr>needFailureReport := b\<rparr>)\<rparr>]\<rparr>"

text \<open>
  \<^verbatim>\<open>xhrLicense.onload\<close> (lines 333-350) of the request at index \<open>x\<close>, with the values of
  \<^verbatim>\<open>this.status\<close>, \<^verbatim>\<open>this.readyState\<close> and \<^verbatim>\<open>this.response\<close> at the event.
\<close>

definition onload :: "nat \<Rightarrow> int \<Rightarrow> nat \<Rightarrow> bytes option \<Rightarrow> controller \<Rightarrow> outcome" where
  "onload x status readyState response s =
     (case handlers (requests s ! x) of
        None \<Rightarrow> Returned s
      | Some cl \<Rightarrow>
          if status < 200 \<or> status > 299 then Returned s
          else if status = 200 \<and> readyState = 4 then
            (case getLicenseMessage (licenseServerData cl) response
                    (keySystemString cl) (closureMessageType cl) of
               Some licenseMessage \<Rightarrow>
                 onModel [ModelUpdateKeySession (closureSessionToken cl) licenseMessage]
                   (setNeedFailureReport x cl False s)
             | None \<Rightarrow> Returned (setNeedFailureReport x cl True s))
          else Returned s)"

text \<open>
  The one function assigned to both \<^verbatim>\<open>onerror\<close> and \<^verbatim>\<open>onloadend\<close> (lines 352-369).
  \<^verbatim>\<open>this.aborted\<close> is the property of the request the event is delivered to;
  \<^verbatim>\<open>xhrLicense = null\<close> writes the controller's variable, whichever request it tracks.
\<close>

definition onloadend :: "nat \<Rightarrow> int \<Rightarrow> bytes option \<Rightarrow> controller \<Rightarrow> outcome" where
  "onloadend x status response s =
     (case handlers (requests s ! x) of
        None \<Rightarrow> Returned s
      | Some cl \<Rightarrow>
          if \<not> needFailureReport cl then Returned (s\<lparr>xhrLicense := None\<rparr>)
          else
            (let s1 = setNeedFailureReport x cl False s;
                 s2 = (if \<not> aborted (requests s ! x) then
                         emit [ProtectionError MEDIA_KEYMESSERR_LICENSER_ERROR
                                 ''License request failed''
                                 (LicenserData (url cl) status
                                    (case response of
                                       None \<Rightarrow> []
                                     | Some r \<Rightarrow> getErrorResponse (licenseServerData cl) r))] s1
                       else s1)
             in Returned (s2\<lparr>xhrLicense := None\<rparr>)))"

section \<open>The remaining handlers and the public functions\<close>

text \<open>Lines 418-421: \<^verbatim>\<open>abInitData\<close>, the event's buffer or the buffer under its view.\<close>

definition bufferOf :: "initDataArg \<Rightarrow> bytes" where
  "bufferOf d = (case d of ArrayBuffer b \<Rightarrow> b | ArrayBufferView b \<Rightarrow> b)"

text \<open>\<^verbatim>\<open>onNeedKey\<close> (lines 402-430).\<close>

definition onNeedKey :: "env \<Rightarrow> needKey \<Rightarrow> controller \<Rightarrow> outcome" where
  "onNeedKey E ev s =
     (if initDataType ev \<noteq> ''cenc'' then Returned s
      else
        (let abInitData = bufferOf (needKeyInitData ev);
             supportedKS = getSupportedKeySystems E abInitData
         in if length supportedKS = 0 then Returned s
            else selectKeySystem E supportedKS False s))"

definition onServerCertificateUpdated :: "string option \<Rightarrow> controller \<Rightarrow> outcome" where
  "onServerCertificateUpdated err s =
     (if \<not> truthy err then Returned s
      else Returned (emit [ProtectionError MEDIA_KEYERR_SERVER_CERTIFICATE
                             ''Failed to set server certificate'' (PassedData (the err))] s))"

definition onKeySessionCreated :: "string option \<Rightarrow> controller \<Rightarrow> outcome" where
  "onKeySessionCreated err s =
     (if \<not> truthy err then Returned s
      else Returned (emit [ProtectionError MEDIA_KEYMESSERR_NO_SESSION
                             ''Failed to create key session'' (PassedData (the err))] s))"

definition onKeyError :: "string \<Rightarrow> string \<Rightarrow> string \<Rightarrow> controller \<Rightarrow> outcome" where
  "onKeyError code text d s = Returned (emit [ProtectionError (GatewayCode code) text (PassedData d)] s)"

text \<open>\<^verbatim>\<open>event.error\<close> of a key-statuses event is an object \<^verbatim>\<open>{code, message, data}\<close>.\<close>

definition onKeyStatusesChanged :: "(string \<times> string \<times> string) option \<Rightarrow> controller \<Rightarrow> outcome" where
  "onKeyStatusesChanged err s =
     (case err of
        None \<Rightarrow> Returned s
      | Some (code, text, d) \<Rightarrow>
          Returned (emit [ProtectionError (GatewayCode code) text (PassedData d)] s))"

text \<open>\<^verbatim>\<open>init\<close> (lines 538-560): \<^verbatim>\<open>initialized = true\<close> is the last statement of the guarded block.\<close>

definition init ::
  "env \<Rightarrow> contentProtection \<Rightarrow> string option \<Rightarrow> string option \<Rightarrow> controller \<Rightarrow> outcome" where
  "init E contentProtection aCodec vCodec s =
     (if \<not> initialized s then
        (let s1 = s\<lparr>audioCodec := aCodec, videoCodec := vCodec\<rparr> in
         andThen
           (case getSupportedKeySystemsFromContentProtection E contentProtection of
              None \<Rightarrow> Returned s1
            | Some supportedKS \<Rightarrow>
                if length supportedKS > 0 then selectKeySystem E supportedKS True s1
                else Returned s1)
           (\<lambda>s2. Returned (s2\<lparr>initialized := True\<rparr>)))
      else Returned s)"

definition setMediaElement :: "mediaElement \<Rightarrow> controller \<Rightarrow> outcome" where
  "setMediaElement element s =
     (case element of
        Element e \<Rightarrow>
          onModel [ModelSetMediaElement element, ModelSubscribe ENAME_NEED_KEY This False] s
      | ElementNull \<Rightarrow>
          onModel [ModelSetMediaElement element, ModelUnsubscribe ENAME_NEED_KEY This] s
      | ElementUndefined \<Rightarrow> Returned s)"

text \<open>
  \<^verbatim>\<open>teardown\<close> (lines 606-626); \<open>abortTracked\<close> is its first statement (lines 608-611).
  The flag \<^verbatim>\<open>aborted\<close> is set on the tracked request before \<^verbatim>\<open>abort()\<close>; the event that
  \<^verbatim>\<open>abort()\<close> makes the host deliver is a later \<open>onloadend\<close>.
\<close>

definition abortTracked :: "controller \<Rightarrow> controller" where
  "abortTracked s =
     (case xhrLicense s of
        None \<Rightarrow> s
      | Some x \<Rightarrow>
          emit [XhrAbort x]
            (s\<lparr>requests := (requests s)[x := (requests s ! x)\<lparr>aborted := True\<rparr>]\<rparr>))"

definition teardown :: "controller \<Rightarrow> outcome" where
  "teardown s =
     (let s1 = abortTracked s
      in andThen
           (onModel (map (\<lambda>e. ModelUnsubscribe e This)
                       [ENAME_KEY_MESSAGE, ENAME_SERVER_CERTIFICATE_UPDATED, ENAME_KEY_ADDED,
                        ENAME_KEY_ERROR, ENAME_KEY_SESSION_CREATED, ENAME_KEY_SESSION_CLOSED,
                        ENAME_KEY_SESSION_REMOVED, ENAME_KEY_MESSAGE,
                        ENAME_KEY_STATUSES_CHANGED]) s1)
           (\<lambda>s2. andThen (onModel [ModelTeardown] (s2\<lparr>keySystem := KsUndefined\<rparr>))
              (\<lambda>s3. andThen (setMediaElement ElementNull s3)
                 (\<lambda>s4. Returned (s4\<lparr>protectionModel := False\<rparr>)))))"

text \<open>\<^verbatim>\<open>setSessionType\<close> (lines 763-767): the guard reads \<^verbatim>\<open>this.keysystem\<close>.\<close>

definition setSessionType :: "string \<Rightarrow> controller \<Rightarrow> outcome" where
  "setSessionType t s =
     (case keysystem s of
        KsUndefined \<Rightarrow> Returned s
      | KsNull \<Rightarrow> Returned s
      | KsObj j \<Rightarrow>
          (case keySystem s of
             KsObj k \<Rightarrow> Returned (s\<lparr>sessionType := (sessionType s)(k := t)\<rparr>)
           | KsNull \<Rightarrow> TypeError s
           | KsUndefined \<Rightarrow> TypeError s))"

definition setProtectionData :: "(string \<rightharpoonup> ProtectionData) option \<Rightarrow> controller \<Rightarrow> outcome" where
  "setProtectionData d s = Returned (emit [ExtInit d] (s\<lparr>protDataSet := d\<rparr>))"

section \<open>Runs of the controller\<close>

text \<open>
  One entry per public function and per event the hosts deliver. A listener or request
  is addressed by its index; an index that names none delivers nothing. \<open>SessionsChanged\<close>
  is the protection model opening or closing sessions on its own.
\<close>

datatype op =
    Setup
  | Init contentProtection "string option" "string option"
  | Teardown
  | CreateKeySession bytes "bytes option"
  | LoadKeySession string
  | RemoveKeySession sessionToken
  | CloseKeySession sessionToken
  | SetServerCertificate bytes
  | SetMediaElement mediaElement
  | SetSessionType string
  | SetProtectionData "(string \<rightharpoonup> ProtectionData) option"
  | AddEventListener string nat
  | RemoveEventListener string nat
  | NeedKey needKey
  | KeyMessage keyMessage
  | ServerCertificateUpdated "string option"
  | KeySessionCreated "string option"
  | KeyAdded
  | KeyError string string string
  | KeySessionClosed
  | KeySessionRemoved
  | KeyStatusesChanged "(string \<times> string \<times> string) option"
  | AccessCompleteKsAccess nat accessEvent
  | AccessCompleteKsSelected nat accessEvent
  | SelectedKsSelected nat "string option" ksval
  | XhrLoad nat int nat "bytes option"
  | XhrError nat int "bytes option"
  | XhrLoadEnd nat int "bytes option"
  | SessionsChanged "bytes list"

fun perform :: "env \<Rightarrow> op \<Rightarrow> controller \<Rightarrow> outcome" where
  "perform E Setup s = setup_controller s"
| "perform E (Init cp a v) s = init E cp a v s"
| "perform E Teardown s = teardown s"
| "perform E (CreateKeySession d cdm) s = createKeySession E d cdm s"
| "perform E (LoadKeySession i) s = onModel [ModelLoadKeySession i] s"
| "perform E (RemoveKeySession t) s = onModel [ModelRemoveKeySession t] s"
| "perform E (CloseKeySession t) s = onModel [ModelCloseKeySession t] s"
| "perform E (SetServerCertificate c) s = onModel [ModelSetServerCertificate c] s"
| "perform E (SetMediaElement e) s = setMediaElement e s"
| "perform E (SetSessionType t) s = setSessionType t s"
| "perform E (SetProtectionData d) s = setProtectionData d s"
| "perform E (AddEventListener t l) s = Returned (emit [BusAddEventListener t l] s)"
| "perform E (RemoveEventListener t l) s = Returned (emit [BusRemoveEventListener t l] s)"
| "perform E (NeedKey ev) s = onNeedKey E ev s"
| "perform E (KeyMessage km) s = onKeyMessage E km s"
| "perform E (ServerCertificateUpdated err) s = onServerCertificateUpdated err s"
| "perform E (KeySessionCreated err) s = onKeySessionCreated err s"
| "perform E KeyAdded s = Returned s"
| "perform E (KeyError c t d) s = onKeyError c t d s"
| "perform E KeySessionClosed s = Returned s"
| "perform E KeySessionRemoved s = Returned s"
| "perform E (KeyStatusesChanged err) s = onKeyStatusesChanged err s"
| "perform E (AccessCompleteKsAccess n ev) s =
     (if n < length (ksAccessListeners s) then ksAccessComplete E (ksAccessListeners s ! n) ev s
      else Returned s)"
| "perform E (AccessCompleteKsSelected n ev) s =
     (if n < length (ksSelectedListeners s) then ksSelectedAccessComplete n ev s else Returned s)"
| "perform E (SelectedKsSelected n err modelKs) s =
     (if n < length (ksSelectedListeners s) then ksSelectedSelected E n err modelKs s
      else Returned s)"
| "perform E (XhrLoad x status readyState response) s =
     (if x < length (requests s) then onload x status readyState response s else Returned s)"
| "perform E (XhrError x status response) s =
     (if x < length (requests s) then onloadend x status response s else Returned s)"
| "perform E (XhrLoadEnd x status response) s =
     (if x < length (requests s) then onloadend x status response s else Returned s)"
| "perform E (SessionsChanged ds) s = Returned (s\<lparr>allInitData := ds\<rparr>)"

text \<open>An exception that escapes a function reaches the host, which goes on with the state as it is.\<close>

fun settle :: "outcome \<Rightarrow> controller" where
  "settle (Returned s) = s"
| "settle (TypeError s) = emit [UncaughtTypeError] s"

fun run :: "env \<Rightarrow> op list \<Rightarrow> controller \<Rightarrow> controller" where
  "run E [] s = s"
| "run E (a # as) s = run E as (settle (perform E a s))"

text \<open>The state an outcome carries, whichever way the function ended.\<close>

fun stateOf :: "outcome \<Rightarrow> controller" where
  "stateOf (Returned s) = s"
| "stateOf (TypeError s) = s"

section \<open>Concrete collaborators and states\<close>

text \<open>
  A small world to run the controller in: two key systems (0 and 1), a license service
  that keeps the URL it is given and takes the response body as the license, and a
  protection model whose session creation does not throw.
\<close>

definition demoServer :: licenseServer where
  "demoServer =
     \<lparr>getServerURLFromMessage = (\<lambda>u m t. u), getHTTPMethod = (\<lambda>t. ''POST''),
      getResponseType = (\<lambda>k t. ''arraybuffer''), getLicenseMessage = (\<lambda>r k t. r),
      getErrorResponse = (\<lambda>r. ''denied'')\<rparr>"

definition demoEnv :: env where
  "demoEnv =
     \<lparr>systemString = (\<lambda>k. if k = 0 then ''com.widevine.alpha'' else ''com.microsoft.playready''),
      schemeIdURI = (\<lambda>k. if k = 0 then ''urn:uuid:edef8ba9'' else ''urn:uuid:9a04f079''),
      getKeySystemConfigurations = (\<lambda>k v a t. t),
      getLicenseServerURLFromInitData = (\<lambda>k d. None),
      getRequestHeadersFromMessage = (\<lambda>k m. None),
      getLicenseRequestFromMessage = (\<lambda>k m. Some m),
      getSupportedKeySystems =
        (\<lambda>d. if d = [] then []
             else [\<lparr>ks = 0, initData = d, cdmData = None\<rparr>, \<lparr>ks = 1, initData = d, cdmData = None\<rparr>]),
      getSupportedKeySystemsFromContentProtection = (\<lambda>cp. None),
      getLicenseServer = (\<lambda>k pd t. Some demoServer),
      isClearKey = (\<lambda>k. False),
      processClearKeyLicenseRequest = (\<lambda>pd m. None),
      getPSSHForKeySystem = (\<lambda>v d. if d = [] then None else Some d),
      getPSSHData = (\<lambda>d. d),
      modelCreateKeySessionThrows = (\<lambda>d t c. None),
      typeErrorMessage = ''Cannot read property of undefined''\<rparr>"

text \<open>The controller after construction and \<^verbatim>\<open>setup()\<close>, and with key system 0 selected.\<close>

definition ready :: controller where
  "ready = settle (setup_controller (construct (\<lambda>k. ''temporary'')))"

definition selected :: controller where
  "selected = ready\<lparr>keySystem := KsObj 0\<rparr>"

text \<open>A key message of three bytes for session \<open>s1\<close>, with a default URL from the host.\<close>

definition demoMessage :: keyMessage where
  "demoMessage =
     \<lparr>messageType = Some ''license-request'', message = Some [1, 2, 3],
      sessionToken = \<lparr>sessionID = ''s1'', tokenInitData = [7]\<rparr>,
      defaultURL = Some ''https://ls/default''\<rparr>"

text \<open>The closure of the request that \<open>demoMessage\<close> opens in \<open>demoEnv\<close>.\<close>

definition demoClosure :: licenseClosure where
  "demoClosure =
     \<lparr>url = ''https://ls/default'', needFailureReport = True, licenseServerData = demoServer,
      closureSessionToken = \<lparr>sessionID = ''s1'', tokenInitData = [7]\<rparr>,
      keySystemString = ''com.widevine.alpha'', closureMessageType = ''license-request''\<rparr>"

text \<open>The controller with that request outstanding and tracked.\<close>

definition exchanging :: controller where
  "exchanging = settle (onKeyMessage demoEnv demoMessage selected)"

text \<open>A key system whose transform of the message into a license request yields \<^verbatim>\<open>null\<close>.\<close>

definition noRequestEnv :: env where
  "noRequestEnv = demoEnv\<lparr>getLicenseRequestFromMessage := (\<lambda>k m. None)\<rparr>"

text \<open>
  Protection data whose \<^verbatim>\<open>serverURL\<close> is a mapping without the entry
  \<^verbatim>\<open>"license-request"\<close>, next to a deprecated \<^verbatim>\<open>laURL\<close>.
\<close>

definition renewalOnly :: ProtectionData where
  "renewalOnly =
     \<lparr>serverURL = Some (URLMap [''license-renewal'' \<mapsto> ''https://ls/renew'']),
      laURL = Some ''https://ls/legacy'', httpRequestHeaders = None, withCredentials = False\<rparr>"

definition configured :: controller where
  "configured = selected\<lparr>protDataSet := Some [''com.widevine.alpha'' \<mapsto> renewalOnly]\<rparr>"

text \<open>A protection model whose session creation throws.\<close>

definition throwingEnv :: env where
  "throwingEnv =
     demoEnv\<lparr>modelCreateKeySessionThrows :=
               (\<lambda>d t c. Some (JsError None ''InvalidStateError'' ''no media keys''))\<rparr>"


fun isLicenserError :: "effect \<Rightarrow> bool" where
  "isLicenserError (ProtectionError code text d) = (code = MEDIA_KEYMESSERR_LICENSER_ERROR)"
| "isLicenserError e = False"

fun isXhr :: "effect \<Rightarrow> bool" where
  "isXhr (XhrNew x) = True"
| "isXhr (XhrOpen x method u) = True"
| "isXhr (XhrResponseType x t) = True"
| "isXhr (XhrWithCredentials x) = True"
| "isXhr (XhrSetRequestHeader x key v) = True"
| "isXhr (XhrSend x body) = True"
| "isXhr (XhrAbort x) = True"
| "isXhr e = False"

fun returned :: "outcome \<Rightarrow> bool" where
  "returned (Returned s) = True"
| "returned (TypeError s) = False"

text \<open>The events of the request at index \<open>x\<close>.\<close>

fun eventOf :: "nat \<Rightarrow> op \<Rightarrow> bool" where
  "eventOf x (XhrLoad y status readyState response) = (y = x)"
| "eventOf x (XhrError y status response) = (y = x)"
| "eventOf x (XhrLoadEnd y status response) = (y = x)"
| "eventOf x a = False"

text \<open>
  Session creation for a list of candidates, one after the other, as long as none lets an
  exception escape.
\<close>

fun createEach :: "env \<Rightarrow> candidate list \<Rightarrow> controller \<Rightarrow> outcome" where
  "createEach E [] s = Returned s"
| "createEach E (c # cs) s =
     andThen (createKeySession E (initData c) (cdmData c) s) (createEach E cs)"

text \<open>
  Two need-key events arrive before the key system is chosen (\<open>selecting\<close>); then access is
  denied (\<open>denied\<close>), or granted for key system 1 (\<open>granted\<close>).
\<close>

definition selecting :: controller where
  "selecting =
     run demoEnv [NeedKey \<lparr>initDataType = ''cenc'', needKeyInitData = ArrayBuffer [1, 2]\<rparr>,
                  NeedKey \<lparr>initDataType = ''cenc'', needKeyInitData = ArrayBufferView [3, 4]\<rparr>] ready"



text \<open>
  A manifest whose content protection names key system 0; the controller torn down, then
  \<^verbatim>\<open>init\<close> called on it twice with different codecs.
\<close>

definition manifestEnv :: env where
  "manifestEnv =
     demoEnv\<lparr>getSupportedKeySystemsFromContentProtection :=
               (\<lambda>cp. Some [\<lparr>ks = 0, initData = [1, 2], cdmData = None\<rparr>])\<rparr>"

definition tornDown :: controller where
  "tornDown = run demoEnv [Teardown] ready"

definition initFailed :: controller where
  "initFailed =
     run manifestEnv [Init [''urn:uuid:edef8ba9''] (Some ''mp4a.40.2'') (Some ''avc1.4d401e'')]
       tornDown"

definition initAgain :: controller where
  "initAgain = run manifestEnv [Init [''urn:uuid:edef8ba9''] (Some ''ac-3'') (Some ''hvc1'')] initFailed"


section \<open>The order of precedence of license server URLs\<close>

text \<open>
  The order in which the amended claim C5 names the sources of the URL, written as a list
  of candidates of which the first one present is taken. It is stated apart from the
  code, which nests the tests; the properties relate the two.
\<close>

fun firstPresent :: "string option list \<Rightarrow> string option" where
  "firstPresent [] = None"
| "firstPresent (None # us) = firstPresent us"
| "firstPresent (Some u # us) = Some u"

definition nonEmpty :: "string option \<Rightarrow> string option" where
  "nonEmpty u = (case u of None \<Rightarrow> None | Some v \<Rightarrow> if v = [] then None else Some v)"

text \<open>
  The configured per-system URL: a non-empty string, or the entry of a mapping for the
  message type. \<open>serverURLConfigured\<close> tells whether \<^verbatim>\<open>serverURL\<close> is set at all (a mapping,
  or a non-empty string).
\<close>

definition serverURLEntry :: "ProtectionData \<Rightarrow> string \<Rightarrow> string option" where
  "serverURLEntry pd mt =
     (case serverURL pd of
        None \<Rightarrow> None
      | Some (URLString u) \<Rightarrow> nonEmpty (Some u)
      | Some (URLMap table) \<Rightarrow> table mt)"

definition serverURLConfigured :: "ProtectionData \<Rightarrow> bool" where
  "serverURLConfigured pd =
     (case serverURL pd of
        None \<Rightarrow> False
      | Some (URLString u) \<Rightarrow> u \<noteq> []
      | Some (URLMap table) \<Rightarrow> True)"

definition precedenceURL ::
  "ProtectionData option \<Rightarrow> string \<Rightarrow> string option \<Rightarrow> string option \<Rightarrow> string option" where
  "precedenceURL protData mt embedded hostDefault =
     firstPresent
       [case protData of None \<Rightarrow> None | Some pd \<Rightarrow> serverURLEntry pd mt,
        case protData of
          None \<Rightarrow> None
        | Some pd \<Rightarrow> if serverURLConfigured pd then None else nonEmpty (laURL pd),
        nonEmpty embedded,
        hostDefault]"

text \<open>The URLs of the \<^verbatim>\<open>open\<close> calls of a trace, in order.\<close>

fun opened :: "effect list \<Rightarrow> string list" where
  "opened [] = []"
| "opened (XhrOpen x method u # es) = u # opened es"
| "opened (e # es) = opened es"

text \<open>
  Key system 0 selected with protection data: a mapping with the entry
  \<^verbatim>\<open>"license-request"\<close> and no \<^verbatim>\<open>laURL\<close>; or no \<^verbatim>\<open>serverURL\<close> and a \<^verbatim>\<open>laURL\<close>.
\<close>

definition mappedData :: ProtectionData where
  "mappedData =
     \<lparr>serverURL = Some (URLMap [''license-request'' \<mapsto> ''https://ls/a'']),
      laURL = None, httpRequestHeaders = None, withCredentials = False\<rparr>"

definition legacyData :: ProtectionData where
  "legacyData =
     \<lparr>serverURL = None, laURL = Some ''https://ls/legacy'',
      httpRequestHeaders = None, withCredentials = False\<rparr>"

definition mapped :: controller where
  "mapped = selected\<lparr>protDataSet := Some [''com.widevine.alpha'' \<mapsto> mappedData]\<rparr>"

definition legacyOnly :: controller where
  "legacyOnly = selected\<lparr>protDataSet := Some [''com.widevine.alpha'' \<mapsto> legacyData]\<rparr>"


section \<open>Properties\<close>

text \<open>The definitions that evaluate the concrete states and collaborators.\<close>

lemmas ready_defs = ready_def selected_def setup_controller_def construct_def emit_def
  subscriptions_def

lemmas demo_defs = demoEnv_def demoServer_def demoMessage_def demoClosure_def noRequestEnv_def
  throwingEnv_def renewalOnly_def configured_def exchanging_def

lemma exchanging_eq:
  "exchanging = selected\<lparr>requests := [\<lparr>aborted = False, handlers = Some demoClosure\<rparr>],
      xhrLicense := Some 0,
      trace := trace selected @ [DispatchKeyMessage demoMessage, XhrNew 0,
        XhrOpen 0 ''POST'' ''https://ls/default'', XhrResponseType 0 ''arraybuffer'',
        XhrSend 0 (Some [1, 2, 3])]\<rparr>"
  by (simp add: demo_defs ready_defs onKeyMessage_def sendLicenseRequest_def Let_def truthy_def
        getProtData_def licenseServerURL_def configuredURL_def headersOf_def)

subsection \<open>What no function assigns: \<^verbatim>\<open>this.keysystem\<close>\<close>

lemma andThen_preserves:
  "P (stateOf out) \<Longrightarrow> (\<And>s1. P s1 \<Longrightarrow> P (stateOf (f s1))) \<Longrightarrow> P (stateOf (andThen out f))"
  by (cases out) simp_all

lemma keysystem_emit [simp]: "keysystem (emit es s) = keysystem s"
  by (simp add: emit_def)

lemma keysystem_settle [simp]: "keysystem (settle out) = keysystem (stateOf out)"
  by (cases out) simp_all

lemma keysystem_onModel [simp]: "keysystem (stateOf (onModel es s)) = keysystem s"
  by (simp add: onModel_def)

lemma keysystem_createKeySession [simp]:
  "keysystem (stateOf (createKeySession E d cdm s)) = keysystem s"
  by (simp add: createKeySession_def split: option.splits ksval.splits)

lemma keysystem_selectKeySystem [simp]:
  "keysystem (stateOf (selectKeySystem E cs m s)) = keysystem s"
  by (simp add: selectKeySystem_def Let_def split: option.splits ksval.splits)

lemma keysystem_replayBatch [simp]:
  "keysystem (stateOf (replayBatch E b s)) = keysystem s"
  by (induction b) simp_all

lemma keysystem_replayPending [simp]:
  "keysystem (stateOf (replayPending E bs s)) = keysystem s"
proof (induction bs arbitrary: s)
  case Nil
  show ?case by simp
next
  case (Cons b bs)
  have "keysystem (stateOf (andThen (replayBatch E b s) (replayPending E bs))) = keysystem s"
    by (rule andThen_preserves [where P = "\<lambda>t. keysystem t = keysystem s"])
       (simp_all add: Cons.IH)
  then show ?case by simp
qed

lemma keysystem_onKeyMessage [simp]:
  "keysystem (stateOf (onKeyMessage E km s)) = keysystem s"
  by (simp add: onKeyMessage_def sendLicenseRequest_def Let_def split: option.splits ksval.splits)

lemma keysystem_setMediaElement [simp]:
  "keysystem (stateOf (setMediaElement e s)) = keysystem s"
  by (simp add: setMediaElement_def split: mediaElement.splits)

lemma keysystem_teardown [simp]:
  "keysystem (stateOf (teardown s)) = keysystem s"
  unfolding teardown_def Let_def
  by (intro andThen_preserves [where P = "\<lambda>t. keysystem t = keysystem s"])
     (simp_all add: abortTracked_def split: option.splits)

lemma keysystem_init [simp]:
  "keysystem (stateOf (init E cp a v s)) = keysystem s"
  unfolding init_def Let_def
  by (auto intro!: andThen_preserves [where P = "\<lambda>t. keysystem t = keysystem s"]
           split: option.splits)

lemma keysystem_handlers [simp]:
  "keysystem (stateOf (ksAccessComplete E c ev s)) = keysystem s"
  "keysystem (stateOf (ksSelectedSelected E n err modelKs s)) = keysystem s"
  "keysystem (stateOf (onload x status readyState response s)) = keysystem s"
  "keysystem (stateOf (onloadend x status response s)) = keysystem s"
  "keysystem (stateOf (onNeedKey E nk s)) = keysystem s"
  "keysystem (stateOf (onServerCertificateUpdated err s)) = keysystem s"
  "keysystem (stateOf (onKeySessionCreated err s)) = keysystem s"
  "keysystem (stateOf (onKeyError c1 t1 d1 s)) = keysystem s"
  "keysystem (stateOf (onKeyStatusesChanged err3 s)) = keysystem s"
  "keysystem (stateOf (setProtectionData pd s)) = keysystem s"
  "keysystem (stateOf (setup_controller s)) = keysystem s"
  by (simp_all add: ksAccessComplete_def ksSelectedSelected_def onload_def onloadend_def
        onNeedKey_def onServerCertificateUpdated_def onKeySessionCreated_def onKeyError_def
        onKeyStatusesChanged_def setProtectionData_def setup_controller_def
        setNeedFailureReport_def Let_def split: option.splits)

lemma keysystem_ksSelectedAccessComplete [simp]:
  "keysystem (stateOf (ksSelectedAccessComplete n ev s)) = keysystem s"
  unfolding ksSelectedAccessComplete_def Let_def
  by (auto intro!: andThen_preserves [where P = "\<lambda>t. keysystem t = keysystem s"]
           split: option.splits)

lemma keysystem_setSessionType [simp]:
  "keysystem (stateOf (setSessionType t s)) = keysystem s"
  by (simp add: setSessionType_def split: ksval.splits)

lemma keysystem_perform: "keysystem (stateOf (perform E a s)) = keysystem s"
  by (cases a) simp_all

lemma keysystem_run: "keysystem (run E ops s) = keysystem s"
  by (induction ops arbitrary: s) (simp_all add: keysystem_perform)

text \<open>
  C8. \<^verbatim>\<open>setSessionType\<close> changes nothing, whatever its argument: in every state the
  controller reaches from its construction, through any sequence of calls and events, the
  property \<^verbatim>\<open>keysystem\<close> that the guard reads is still \<^verbatim>\<open>undefined\<close>, so the function
  returns the state it was given, session types included.
\<close>

theorem setSessionType_unreachable:
  "setSessionType t (run E ops (construct types)) = Returned (run E ops (construct types))"
  by (simp add: setSessionType_def keysystem_run construct_def)

subsection \<open>What only \<^verbatim>\<open>init\<close> assigns: \<^verbatim>\<open>initialized\<close>\<close>

lemma initialized_emit [simp]: "initialized (emit es s) = initialized s"
  by (simp add: emit_def)

lemma initialized_settle [simp]: "initialized (settle out) = initialized (stateOf out)"
  by (cases out) simp_all

lemma initialized_onModel [simp]: "initialized (stateOf (onModel es s)) = initialized s"
  by (simp add: onModel_def)

lemma initialized_createKeySession [simp]:
  "initialized (stateOf (createKeySession E d cdm s)) = initialized s"
  by (simp add: createKeySession_def split: option.splits ksval.splits)

lemma initialized_selectKeySystem [simp]:
  "initialized (stateOf (selectKeySystem E cs m s)) = initialized s"
  by (simp add: selectKeySystem_def Let_def split: option.splits ksval.splits)

lemma initialized_replayBatch [simp]:
  "initialized (stateOf (replayBatch E b s)) = initialized s"
  by (induction b) simp_all

lemma initialized_replayPending [simp]:
  "initialized (stateOf (replayPending E bs s)) = initialized s"
proof (induction bs arbitrary: s)
  case Nil
  show ?case by simp
next
  case (Cons b bs)
  have "initialized (stateOf (andThen (replayBatch E b s) (replayPending E bs))) = initialized s"
    by (rule andThen_preserves [where P = "\<lambda>t. initialized t = initialized s"])
       (simp_all add: Cons.IH)
  then show ?case by simp
qed

lemma initialized_onKeyMessage [simp]:
  "initialized (stateOf (onKeyMessage E km s)) = initialized s"
  by (simp add: onKeyMessage_def sendLicenseRequest_def Let_def split: option.splits ksval.splits)

lemma initialized_setMediaElement [simp]:
  "initialized (stateOf (setMediaElement e s)) = initialized s"
  by (simp add: setMediaElement_def split: mediaElement.splits)

lemma initialized_teardown [simp]:
  "initialized (stateOf (teardown s)) = initialized s"
  unfolding teardown_def Let_def
  by (intro andThen_preserves [where P = "\<lambda>t. initialized t = initialized s"])
     (simp_all add: abortTracked_def split: option.splits)

lemma init_again: "initialized s \<Longrightarrow> init E cp a v s = Returned s"
  by (simp add: init_def)

lemma init_returned: "init E cp a v s = Returned s1 \<Longrightarrow> initialized s1"
  by (auto simp: init_def Let_def split: if_splits option.splits outcome.splits
           elim!: andThen.elims)

lemma initialized_handlers [simp]:
  "initialized (stateOf (ksAccessComplete E c ev s)) = initialized s"
  "initialized (stateOf (ksSelectedSelected E n err modelKs s)) = initialized s"
  "initialized (stateOf (onload x status readyState response s)) = initialized s"
  "initialized (stateOf (onloadend x status response s)) = initialized s"
  "initialized (stateOf (onNeedKey E nk s)) = initialized s"
  "initialized (stateOf (onServerCertificateUpdated err s)) = initialized s"
  "initialized (stateOf (onKeySessionCreated err s)) = initialized s"
  "initialized (stateOf (onKeyError c1 t1 d1 s)) = initialized s"
  "initialized (stateOf (onKeyStatusesChanged err3 s)) = initialized s"
  "initialized (stateOf (setProtectionData pd s)) = initialized s"
  "initialized (stateOf (setup_controller s)) = initialized s"
  "initialized (stateOf (setSessionType t s)) = initialized s"
  by (simp_all add: ksAccessComplete_def ksSelectedSelected_def onload_def onloadend_def
        onNeedKey_def onServerCertificateUpdated_def onKeySessionCreated_def onKeyError_def
        onKeyStatusesChanged_def setProtectionData_def setup_controller_def
        setNeedFailureReport_def setSessionType_def Let_def split: option.splits ksval.splits)

lemma initialized_ksSelectedAccessComplete [simp]:
  "initialized (stateOf (ksSelectedAccessComplete n ev s)) = initialized s"
  unfolding ksSelectedAccessComplete_def Let_def
  by (auto intro!: andThen_preserves [where P = "\<lambda>t. initialized t = initialized s"]
           split: option.splits)

lemma initialized_perform: "initialized s \<Longrightarrow> initialized (stateOf (perform E a s))"
  by (cases a) (simp_all add: init_again)

lemma initialized_run: "initialized s \<Longrightarrow> initialized (run E ops s)"
  by (induction ops arbitrary: s) (simp_all add: initialized_perform)

text \<open>
  C9, as the claim has it, fails when the first call of \<^verbatim>\<open>init\<close> does not return: on a
  controller without its protection model (here after \<^verbatim>\<open>teardown\<close>) the call stores the
  codecs, queues the batch and throws at \<^verbatim>\<open>protectionModel.subscribe\<close> (line 228), before
  line 558 sets the flag. The next call of \<^verbatim>\<open>init\<close> changes the codecs and the queue again.
\<close>

theorem init_after_throw_counterexample:
  "initialized initFailed = False
   \<and> audioCodec initFailed = Some ''mp4a.40.2'' \<and> videoCodec initFailed = Some ''avc1.4d401e''
   \<and> pendingNeedKeyData initFailed = [[\<lparr>ks = 0, initData = [1, 2], cdmData = None\<rparr>]]
   \<and> audioCodec initAgain = Some ''ac-3'' \<and> videoCodec initAgain = Some ''hvc1''
   \<and> pendingNeedKeyData initAgain
       = [[\<lparr>ks = 0, initData = [1, 2], cdmData = None\<rparr>],
          [\<lparr>ks = 0, initData = [1, 2], cdmData = None\<rparr>]]"
  by (simp add: initAgain_def initFailed_def tornDown_def manifestEnv_def demoEnv_def ready_defs
        teardown_def abortTracked_def onModel_def setMediaElement_def init_def
        selectKeySystem_def Let_def)

text \<open>
  C9, amended. Once a call of \<^verbatim>\<open>init\<close> has returned, no later call of \<^verbatim>\<open>init\<close> has an
  effect: the flag \<^verbatim>\<open>initialized\<close> is set by then, and no function clears it (\<^verbatim>\<open>teardown\<close>
  included). After any further calls and events, \<^verbatim>\<open>init\<close> with any arguments returns the
  state it was given, so the codecs, the selection state, the queue of pending batches
  and the trace of calls (no negotiation request) are as before.
\<close>

theorem init_only_once:
  "init E cp a v s = Returned s1 \<Longrightarrow> init E cp' a' v' (run E ops s1) = Returned (run E ops s1)"
  by (rule init_again, rule initialized_run, rule init_returned)

theorem init_only_once_witness:
  "init demoEnv [] (Some ''mp4a.40.2'') (Some ''avc1.4d401e'') ready
     = Returned (ready\<lparr>audioCodec := Some ''mp4a.40.2'', videoCodec := Some ''avc1.4d401e'',
                       initialized := True\<rparr>)
   \<and> (let later = run demoEnv [NeedKey \<lparr>initDataType = ''cenc'', needKeyInitData = ArrayBuffer [1, 2]\<rparr>, Teardown]
                     (ready\<lparr>audioCodec := Some ''mp4a.40.2'', videoCodec := Some ''avc1.4d401e'',
                            initialized := True\<rparr>)
      in init demoEnv [''urn:uuid:edef8ba9''] None (Some ''vp9'') later = Returned later)"
proof -
  have first: "init demoEnv [] (Some ''mp4a.40.2'') (Some ''avc1.4d401e'') ready
     = Returned (ready\<lparr>audioCodec := Some ''mp4a.40.2'', videoCodec := Some ''avc1.4d401e'',
                       initialized := True\<rparr>)"
    by (simp add: init_def demoEnv_def ready_defs)
  show ?thesis
    unfolding Let_def by (intro conjI first init_only_once [OF first])
qed

subsection \<open>Events the controller ignores or refuses\<close>

text \<open>
  C10. A need-key event whose \<^verbatim>\<open>initDataType\<close> is not \<^verbatim>\<open>"cenc"\<close>, or whose initialization
  data has no supported key system, leaves the controller as it was: no selection starts,
  no batch is queued, nothing is dispatched and no fault is raised.
\<close>

theorem onNeedKey_ignored:
  "initDataType ev \<noteq> ''cenc'' \<or> getSupportedKeySystems E (bufferOf (needKeyInitData ev)) = []
     \<Longrightarrow> onNeedKey E ev s = Returned s"
  by (auto simp: onNeedKey_def)

theorem onNeedKey_ignored_witness:
  "(initDataType \<lparr>initDataType = ''webm'', needKeyInitData = ArrayBuffer [1, 2]\<rparr> \<noteq> ''cenc''
    \<and> onNeedKey demoEnv \<lparr>initDataType = ''webm'', needKeyInitData = ArrayBuffer [1, 2]\<rparr> ready
        = Returned ready)
   \<and> (getSupportedKeySystems demoEnv
         (bufferOf (needKeyInitData \<lparr>initDataType = ''cenc'', needKeyInitData = ArrayBufferView []\<rparr>)) = []
    \<and> onNeedKey demoEnv \<lparr>initDataType = ''cenc'', needKeyInitData = ArrayBufferView []\<rparr> ready
        = Returned ready)"
  using onNeedKey_ignored [of "\<lparr>initDataType = ''webm'', needKeyInitData = ArrayBuffer [1, 2]\<rparr>"
          demoEnv ready]
        onNeedKey_ignored [of "\<lparr>initDataType = ''cenc'', needKeyInitData = ArrayBufferView []\<rparr>"
          demoEnv ready]
  by (simp add: demoEnv_def bufferOf_def)

text \<open>
  C6, as the claim has it, fails for a key message that arrives while no key system is
  selected: line 263 reads \<^verbatim>\<open>this.keySystem.systemString\<close> before the test of the
  message, so the handler dispatches the message and throws, and no fault is raised.
\<close>

theorem empty_message_unselected_counterexample:
  "message (demoMessage\<lparr>message := None\<rparr>) = None
   \<and> keySystem ready = KsUndefined
   \<and> onKeyMessage demoEnv (demoMessage\<lparr>message := None\<rparr>) ready
       = TypeError (ready\<lparr>trace := trace ready @ [DispatchKeyMessage (demoMessage\<lparr>message := None\<rparr>)]\<rparr>)"
  by (simp add: onKeyMessage_def ready_defs Let_def)

text \<open>
  C6, amended. A key message whose bytes are missing or of length zero never reaches the
  license server: in every state the handler creates no request, leaves the tracked
  request as it is and makes no call on an \<^verbatim>\<open>XMLHttpRequest\<close>. When a key system is
  selected, the handler returns after two calls, the dispatch of the message to the
  application and the fault \<^verbatim>\<open>MEDIA_KEYMESSERR_NO_CHALLENGE\<close>, and changes nothing else.
\<close>

theorem empty_message_no_challenge:
  assumes "message km = None \<or> message km = Some []"
  shows "(keySystem s = KsObj k \<longrightarrow>
            onKeyMessage E km s
              = Returned (s\<lparr>trace := trace s @
                            [DispatchKeyMessage km,
                             ProtectionError MEDIA_KEYMESSERR_NO_CHALLENGE
                               ''Empty key message from CDM'' NoData]\<rparr>))
    \<and> requests (stateOf (onKeyMessage E km s)) = requests s
    \<and> xhrLicense (stateOf (onKeyMessage E km s)) = xhrLicense s
    \<and> filter isXhr (trace (stateOf (onKeyMessage E km s))) = filter isXhr (trace s)"
  using assms
  by (auto simp: onKeyMessage_def emit_def noChallenge_def Let_def split: ksval.splits)

theorem empty_message_no_challenge_witness:
  "(keySystem selected = KsObj 0
    \<and> onKeyMessage demoEnv (demoMessage\<lparr>message := None\<rparr>) selected
        = Returned (selected\<lparr>trace := trace selected @
                      [DispatchKeyMessage (demoMessage\<lparr>message := None\<rparr>),
                       ProtectionError MEDIA_KEYMESSERR_NO_CHALLENGE
                         ''Empty key message from CDM'' NoData]\<rparr>))
   \<and> onKeyMessage demoEnv (demoMessage\<lparr>message := Some []\<rparr>) selected
       = Returned (selected\<lparr>trace := trace selected @
                     [DispatchKeyMessage (demoMessage\<lparr>message := Some []\<rparr>),
                      ProtectionError MEDIA_KEYMESSERR_NO_CHALLENGE
                        ''Empty key message from CDM'' NoData]\<rparr>)
   \<and> requests (stateOf (onKeyMessage demoEnv (demoMessage\<lparr>message := Some []\<rparr>) ready))
       = requests ready
   \<and> filter isXhr (trace (stateOf (onKeyMessage demoEnv (demoMessage\<lparr>message := Some []\<rparr>) ready)))
       = filter isXhr (trace ready)"
proof -
  have k: "keySystem selected = KsObj 0"
    by (simp add: selected_def)
  have m: "message (demoMessage\<lparr>message := None\<rparr>) = None
             \<or> message (demoMessage\<lparr>message := None\<rparr>) = Some []"
    "message (demoMessage\<lparr>message := Some []\<rparr>) = None
       \<or> message (demoMessage\<lparr>message := Some []\<rparr>) = Some []"
    by simp_all
  show ?thesis
    using k empty_message_no_challenge [OF m(1), of selected 0 demoEnv]
      empty_message_no_challenge [OF m(2), of selected 0 demoEnv]
      empty_message_no_challenge [OF m(2), of ready 0 demoEnv]
    by simp
qed

subsection \<open>The license exchange\<close>

text \<open>
  C2. Where the key system's transform of the message yields \<^verbatim>\<open>null\<close>, the fault
  \<^verbatim>\<open>MEDIA_KEYMESSERR_NO_CHALLENGE\<close> is raised and the request is sent all the same, with
  a \<^verbatim>\<open>null\<close> body: line 399 follows the fault of lines 395-398 without a \<^verbatim>\<open>return\<close>.
  The run below is the controller with key system 0 selected, receiving a key message of
  three bytes.
\<close>

theorem null_license_request_is_sent:
  "getLicenseRequestFromMessage noRequestEnv 0 [1, 2, 3] = None
   \<and> trace (settle (onKeyMessage noRequestEnv demoMessage selected))
       = trace selected @
         [DispatchKeyMessage demoMessage, XhrNew 0, XhrOpen 0 ''POST'' ''https://ls/default'',
          XhrResponseType 0 ''arraybuffer'',
          noChallenge ''No license challenge from CDM key message'', XhrSend 0 None]"
  by (simp add: demo_defs ready_defs onKeyMessage_def sendLicenseRequest_def Let_def truthy_def
        getProtData_def licenseServerURL_def configuredURL_def headersOf_def)







subsection \<open>Teardown during an exchange\<close>

lemma requests_settle [simp]: "requests (settle out) = requests (stateOf out)"
  by (cases out) (simp_all add: emit_def)

lemma licenser_settle [simp]:
  "filter isLicenserError (trace (settle out)) = filter isLicenserError (trace (stateOf out))"
  by (cases out) (simp_all add: emit_def)

lemma requests_onModel [simp]: "requests (stateOf (onModel es s)) = requests s"
  by (simp add: onModel_def emit_def)

lemma trace_onModel:
  "trace (stateOf (onModel es s)) = trace s @ (if protectionModel s then es else [])"
  by (simp add: onModel_def emit_def)

lemma requests_setMediaElement [simp]: "requests (stateOf (setMediaElement e s)) = requests s"
  by (simp add: setMediaElement_def split: mediaElement.splits)

lemma requests_teardown:
  "requests (stateOf (teardown s)) = requests (abortTracked s)"
  unfolding teardown_def Let_def
  by (intro andThen_preserves [where P = "\<lambda>t. requests t = requests (abortTracked s)"])
     simp_all

lemma quietly_onModel:
  "\<exists>es. trace s = base @ es \<and> filter isLicenserError es = [] \<Longrightarrow>
     filter isLicenserError fs = [] \<Longrightarrow>
     \<exists>es. trace (stateOf (onModel fs s)) = base @ es \<and> filter isLicenserError es = []"
  by (auto simp: onModel_def emit_def)

lemma quietly_setMediaElement:
  "\<exists>es. trace s = base @ es \<and> filter isLicenserError es = [] \<Longrightarrow>
     \<exists>es. trace (stateOf (setMediaElement e s)) = base @ es \<and> filter isLicenserError es = []"
  by (auto simp: setMediaElement_def intro!: quietly_onModel split: mediaElement.splits)

lemma quietly_teardown:
  "\<exists>es. trace (stateOf (teardown s)) = trace (abortTracked s) @ es
         \<and> filter isLicenserError es = []"
  unfolding teardown_def Let_def
  by (intro andThen_preserves
        [where P = "\<lambda>t. \<exists>es. trace t = trace (abortTracked s) @ es
                           \<and> filter isLicenserError es = []"]
        quietly_onModel quietly_setMediaElement)
     simp_all

lemma aborted_onloadend_silent:
  "aborted (requests s ! x) \<Longrightarrow> trace (stateOf (onloadend x status response s)) = trace s"
  by (simp add: onloadend_def setNeedFailureReport_def Let_def split: option.splits)

lemma aborted_kept_onload:
  "x < length (requests s) \<Longrightarrow> aborted (requests s ! x) \<Longrightarrow>
     aborted (requests (stateOf (onload x status readyState response s)) ! x)
     \<and> length (requests (stateOf (onload x status readyState response s))) = length (requests s)"
  by (simp add: onload_def setNeedFailureReport_def Let_def split: option.splits)

lemma aborted_kept_onloadend:
  "x < length (requests s) \<Longrightarrow> aborted (requests s ! x) \<Longrightarrow>
     aborted (requests (stateOf (onloadend x status response s)) ! x)
     \<and> length (requests (stateOf (onloadend x status response s))) = length (requests s)"
  by (simp add: onloadend_def setNeedFailureReport_def Let_def split: option.splits)

lemma onload_no_fault:
  "filter isLicenserError (trace (stateOf (onload x status readyState response s)))
     = filter isLicenserError (trace s)"
  by (simp add: onload_def setNeedFailureReport_def onModel_def emit_def Let_def
        split: option.splits)

lemma aborted_step:
  assumes "x < length (requests s)" and "aborted (requests s ! x)" and "eventOf x a"
  shows "x < length (requests (settle (perform E a s)))
     \<and> aborted (requests (settle (perform E a s)) ! x)
     \<and> filter isLicenserError (trace (settle (perform E a s))) = filter isLicenserError (trace s)"
proof (cases a)
  case (XhrLoad y status readyState response)
  with assms(3) have "y = x" by simp
  with XhrLoad assms(1,2) aborted_kept_onload [of x s status readyState response]
  show ?thesis by (simp add: onload_no_fault)
next
  case (XhrError y status response)
  with assms(3) have "y = x" by simp
  with XhrError assms(1,2) aborted_kept_onloadend [of x s status response]
  show ?thesis by (simp add: aborted_onloadend_silent)
next
  case (XhrLoadEnd y status response)
  with assms(3) have "y = x" by simp
  with XhrLoadEnd assms(1,2) aborted_kept_onloadend [of x s status response]
  show ?thesis by (simp add: aborted_onloadend_silent)
qed (use assms(3) in simp_all)

lemma aborted_events_silent:
  "x < length (requests s) \<Longrightarrow> aborted (requests s ! x) \<Longrightarrow> list_all (eventOf x) ops \<Longrightarrow>
     filter isLicenserError (trace (run E ops s)) = filter isLicenserError (trace s)"
proof (induction ops arbitrary: s)
  case Nil
  show ?case by simp
next
  case (Cons a ops)
  from Cons.prems have ev: "eventOf x a" and rest: "list_all (eventOf x) ops" by simp_all
  note inv = aborted_step [OF Cons.prems(1,2) ev, of E]
  then have "filter isLicenserError (trace (run E ops (settle (perform E a s))))
      = filter isLicenserError (trace (settle (perform E a s)))"
    using Cons.IH [of "settle (perform E a s)"] rest by simp
  with inv show ?case by simp
qed

text \<open>
  C7. When \<^verbatim>\<open>teardown\<close> runs while a request is tracked, it marks that request as
  aborted and calls \<^verbatim>\<open>abort()\<close> on it, and raises no license-server fault itself. From then
  on the completion handler of that request (the one function behind \<^verbatim>\<open>onerror\<close> and
  \<^verbatim>\<open>onloadend\<close>) adds nothing to the trace, whatever the status and the response; and no
  sequence of events of that request adds a fault \<^verbatim>\<open>MEDIA_KEYMESSERR_LICENSER_ERROR\<close>.
\<close>

theorem teardown_suppresses_fault:
  assumes "xhrLicense s = Some x" and "x < length (requests s)"
  shows "(\<exists>es. trace (stateOf (teardown s)) = trace s @ XhrAbort x # es
               \<and> filter isLicenserError es = [])
    \<and> aborted (requests (stateOf (teardown s)) ! x)
    \<and> (\<forall>status response.
          trace (stateOf (onloadend x status response (stateOf (teardown s))))
            = trace (stateOf (teardown s)))
    \<and> (\<forall>ops. list_all (eventOf x) ops \<longrightarrow>
          filter isLicenserError (trace (run E ops (settle (teardown s))))
            = filter isLicenserError (trace s))"
proof -
  let ?t = "stateOf (teardown s)"
  have ab: "requests ?t = (requests s)[x := (requests s ! x)\<lparr>aborted := True\<rparr>]"
    using assms by (simp add: requests_teardown abortTracked_def emit_def)
  have fl: "aborted (requests ?t ! x)" and len: "x < length (requests ?t)"
    using assms by (simp_all add: ab)
  have tr: "\<exists>es. trace ?t = trace s @ XhrAbort x # es \<and> filter isLicenserError es = []"
    using quietly_teardown [of s] assms by (simp add: abortTracked_def emit_def)
  then have quiet: "filter isLicenserError (trace ?t) = filter isLicenserError (trace s)"
    by auto
  have later: "filter isLicenserError (trace (run E ops (settle (teardown s))))
      = filter isLicenserError (trace s)" if "list_all (eventOf x) ops" for ops
    using aborted_events_silent [of x "settle (teardown s)" ops E] that fl len quiet by simp
  show ?thesis
    using tr fl later by (simp add: aborted_onloadend_silent)
qed

theorem teardown_suppresses_fault_witness:
  "xhrLicense exchanging = Some 0 \<and> 0 < length (requests exchanging)
   \<and> aborted (requests (stateOf (teardown exchanging)) ! 0)
   \<and> trace (stateOf (onloadend 0 0 None (stateOf (teardown exchanging))))
       = trace (stateOf (teardown exchanging))
   \<and> filter isLicenserError
         (trace (run demoEnv [XhrError 0 0 None, XhrLoadEnd 0 0 None] (settle (teardown exchanging))))
       = filter isLicenserError (trace exchanging)
   \<and> filter isLicenserError (trace (run demoEnv [XhrError 0 0 None, XhrLoadEnd 0 0 None] exchanging))
       = filter isLicenserError (trace exchanging) @
         [ProtectionError MEDIA_KEYMESSERR_LICENSER_ERROR ''License request failed''
            (LicenserData ''https://ls/default'' 0 [])]"
proof -
  have h: "xhrLicense exchanging = Some 0" "0 < length (requests exchanging)"
    by (simp_all add: exchanging_eq)
  have ev: "list_all (eventOf 0) [XhrError 0 0 None, XhrLoadEnd 0 0 None]"
    by simp
  have before: "filter isLicenserError
        (trace (run demoEnv [XhrError 0 0 None, XhrLoadEnd 0 0 None] exchanging))
      = filter isLicenserError (trace exchanging) @
        [ProtectionError MEDIA_KEYMESSERR_LICENSER_ERROR ''License request failed''
           (LicenserData ''https://ls/default'' 0 [])]"
    by (simp add: exchanging_eq demoClosure_def onloadend_def Let_def setNeedFailureReport_def
          emit_def)
  show ?thesis
    using h ev before teardown_suppresses_fault [OF h, of demoEnv] by blast
qed

subsection \<open>The license server URL\<close>

text \<open>
  C5, as the claim has it, fails where \<^verbatim>\<open>serverURL\<close> is a mapping without the message
  type and the deprecated \<^verbatim>\<open>laURL\<close> is set: \<^verbatim>\<open>laURL\<close> is not consulted, the request goes
  to the host's default URL.
\<close>

theorem legacy_url_skipped_counterexample:
  "laURL renewalOnly = Some ''https://ls/legacy''
   \<and> getProtData demoEnv 0 configured = Some renewalOnly
   \<and> trace (settle (onKeyMessage demoEnv demoMessage configured))
       = trace configured @
         [DispatchKeyMessage demoMessage, XhrNew 0, XhrOpen 0 ''POST'' ''https://ls/default'',
          XhrResponseType 0 ''arraybuffer'', XhrSend 0 (Some [1, 2, 3])]"
  by (simp add: demo_defs ready_defs onKeyMessage_def sendLicenseRequest_def Let_def truthy_def
        getProtData_def licenseServerURL_def configuredURL_def headersOf_def)

lemma opened_append: "opened (es @ fs) = opened es @ opened fs"
  by (induction es rule: opened.induct) simp_all

lemma opened_updateHeaders: "opened (updateHeaders x hs) = []"
  by (induction x hs rule: updateHeaders.induct) (simp_all add: opened_append)

lemma opened_headersOf: "opened (headersOf x hs) = []"
  by (simp add: headersOf_def opened_updateHeaders split: option.splits)

lemma firstPresent_single [simp]: "firstPresent [u] = u"
  by (cases u) simp_all

lemma precedence_code:
  "precedenceURL protData mt embedded hostDefault
     = (case configuredURL protData mt of
          Some u \<Rightarrow> Some u
        | None \<Rightarrow> if truthy embedded then embedded else hostDefault)"
  by (auto simp: precedenceURL_def configuredURL_def legacyURL_def serverURLEntry_def
        serverURLConfigured_def nonEmpty_def truthy_def
        split: option.splits server_url.splits)

lemma licenseServerURL_precedence:
  "licenseServerURL E k protData lsd km mt m
     = getServerURLFromMessage lsd
         (precedenceURL protData mt
            (getLicenseServerURLFromInitData E k (getPSSHData E (tokenInitData (sessionToken km))))
            (defaultURL km)) m mt"
  by (simp add: licenseServerURL_def precedence_code Let_def split: option.splits)

lemma onKeyMessage_sends:
  assumes "keySystem s = KsObj k" and "message km = Some m" and "m \<noteq> []"
    and "mt = (case messageType km of None \<Rightarrow> ''license-request''
               | Some t \<Rightarrow> if t = [] then ''license-request'' else t)"
    and "protData = (case protDataSet s of None \<Rightarrow> None | Some table \<Rightarrow> table (systemString E k))"
    and "getLicenseServer E k protData mt = Some lsd"
    and "\<not> isClearKey E k \<or> processClearKeyLicenseRequest E protData m = None"
  shows "onKeyMessage E km s
           = sendLicenseRequest E k protData lsd km mt m
               (s\<lparr>trace := trace s @ [DispatchKeyMessage km]\<rparr>)"
  using assms
  by (auto simp: onKeyMessage_def getProtData_def truthy_def emit_def Let_def
           split: option.splits)


text \<open>
  C5, amended. Take a key message that needs the license server: a key system is
  selected, the message is not empty, a license-service descriptor exists for it and the
  ClearKey hook has not answered it. The URL is the first one present in this order: the
  configured \<^verbatim>\<open>serverURL\<close> of the selected system (a non-empty string, or the entry of a
  mapping for the message type); the deprecated \<^verbatim>\<open>laURL\<close>, consulted only when no
  \<^verbatim>\<open>serverURL\<close> is configured (not when a mapping lacks the message type); the URL embedded
  in the initialization data, when it is not empty; the host's default URL. The
  descriptor's \<^verbatim>\<open>getServerURLFromMessage\<close> is applied to it last. When the result is a
  non-empty URL, the handler opens exactly one request, on that URL, and its handlers
  keep that URL. When the result is absent or empty, the handler raises the fault
  \<^verbatim>\<open>MEDIA_KEYMESSERR_URL_LICENSER_UNKNOWN\<close> and returns: nothing is opened or sent; the
  request object exists and is tracked by then.
\<close>

theorem license_url_precedence:
  assumes "keySystem s = KsObj k" and "message km = Some m" and "m \<noteq> []"
    and "mt = (case messageType km of None \<Rightarrow> ''license-request''
               | Some t \<Rightarrow> if t = [] then ''license-request'' else t)"
    and "protData = (case protDataSet s of None \<Rightarrow> None | Some table \<Rightarrow> table (systemString E k))"
    and "getLicenseServer E k protData mt = Some lsd"
    and "\<not> isClearKey E k \<or> processClearKeyLicenseRequest E protData m = None"
    and "target = getServerURLFromMessage lsd
                    (precedenceURL protData mt
                       (getLicenseServerURLFromInitData E k
                          (getPSSHData E (tokenInitData (sessionToken km))))
                       (defaultURL km)) m mt"
    and "x = length (requests s)"
  shows "(target = None \<or> target = Some [] \<longrightarrow>
            onKeyMessage E km s
              = Returned (s\<lparr>requests := requests s @ [\<lparr>aborted = False, handlers = None\<rparr>],
                           xhrLicense := Some x,
                           trace := trace s @
                             [DispatchKeyMessage km, XhrNew x,
                              ProtectionError MEDIA_KEYMESSERR_URL_LICENSER_UNKNOWN
                                ''No license server URL specified'' NoData]\<rparr>))
    \<and> (\<forall>u. target = Some u \<and> u \<noteq> [] \<longrightarrow>
            returned (onKeyMessage E km s)
            \<and> take 3 (drop (length (trace s)) (trace (stateOf (onKeyMessage E km s))))
                = [DispatchKeyMessage km, XhrNew x, XhrOpen x (getHTTPMethod lsd mt) u]
            \<and> opened (trace (stateOf (onKeyMessage E km s))) = opened (trace s) @ [u]
            \<and> map_option url (handlers (requests (stateOf (onKeyMessage E km s)) ! x)) = Some u)"
proof -
  let ?s1 = "s\<lparr>trace := trace s @ [DispatchKeyMessage km]\<rparr>"
  have run: "onKeyMessage E km s = sendLicenseRequest E k protData lsd km mt m ?s1"
    by (rule onKeyMessage_sends [OF assms(1-7)])
  have url: "licenseServerURL E k protData lsd km mt m = target"
    by (simp add: licenseServerURL_precedence assms(8))
  have none: "onKeyMessage E km s
      = Returned (s\<lparr>requests := requests s @ [\<lparr>aborted = False, handlers = None\<rparr>],
                   xhrLicense := Some x,
                   trace := trace s @
                     [DispatchKeyMessage km, XhrNew x,
                      ProtectionError MEDIA_KEYMESSERR_URL_LICENSER_UNKNOWN
                        ''No license server URL specified'' NoData]\<rparr>)"
    if "target = None \<or> target = Some []"
    using that by (auto simp: run sendLicenseRequest_def url truthy_def emit_def Let_def assms(9))
  have some: "returned (onKeyMessage E km s)
      \<and> take 3 (drop (length (trace s)) (trace (stateOf (onKeyMessage E km s))))
          = [DispatchKeyMessage km, XhrNew x, XhrOpen x (getHTTPMethod lsd mt) u]
      \<and> opened (trace (stateOf (onKeyMessage E km s))) = opened (trace s) @ [u]
      \<and> map_option url (handlers (requests (stateOf (onKeyMessage E km s)) ! x)) = Some u"
    if "target = Some u" and "u \<noteq> []" for u
    using that
    by (simp add: run sendLicenseRequest_def url truthy_def emit_def Let_def assms(9)
          opened_append opened_headersOf nth_append noChallenge_def split: option.splits)
  show ?thesis
    using none some by blast
qed


theorem license_url_precedence_witness:
  "keySystem mapped = KsObj 0 \<and> keySystem legacyOnly = KsObj 0 \<and> keySystem selected = KsObj 0
   \<and> message demoMessage = Some [1, 2, 3]
   \<and> getLicenseServer demoEnv 0 None ''license-request'' = Some demoServer
   \<and> isClearKey demoEnv 0 = False
   \<and> opened (trace (stateOf (onKeyMessage demoEnv demoMessage mapped)))
       = opened (trace mapped) @ [''https://ls/a'']
   \<and> opened (trace (stateOf (onKeyMessage demoEnv demoMessage legacyOnly)))
       = opened (trace legacyOnly) @ [''https://ls/legacy'']
   \<and> opened (trace (stateOf (onKeyMessage demoEnv demoMessage selected)))
       = opened (trace selected) @ [''https://ls/default'']
   \<and> onKeyMessage demoEnv (demoMessage\<lparr>defaultURL := None\<rparr>) selected
       = Returned (selected\<lparr>requests := requests selected @ [\<lparr>aborted = False, handlers = None\<rparr>],
                     xhrLicense := Some 0,
                     trace := trace selected @
                       [DispatchKeyMessage (demoMessage\<lparr>defaultURL := None\<rparr>), XhrNew 0,
                        ProtectionError MEDIA_KEYMESSERR_URL_LICENSER_UNKNOWN
                          ''No license server URL specified'' NoData]\<rparr>)"
proof -
  have k: "keySystem mapped = KsObj 0" "keySystem legacyOnly = KsObj 0" "keySystem selected = KsObj 0"
    by (simp_all add: mapped_def legacyOnly_def selected_def)
  have m: "message demoMessage = Some [1, 2, 3]" "[1, 2, 3] \<noteq> ([] :: bytes)"
    "message (demoMessage\<lparr>defaultURL := None\<rparr>) = Some [1, 2, 3]"
    by (simp_all add: demoMessage_def)
  have t: "''license-request''
             = (case messageType demoMessage of None \<Rightarrow> ''license-request''
                | Some t \<Rightarrow> if t = [] then ''license-request'' else t)"
    "''license-request''
       = (case messageType (demoMessage\<lparr>defaultURL := None\<rparr>) of None \<Rightarrow> ''license-request''
          | Some t \<Rightarrow> if t = [] then ''license-request'' else t)"
    by (simp_all add: demoMessage_def)
  have p: "Some mappedData
             = (case protDataSet mapped of None \<Rightarrow> None | Some table \<Rightarrow> table (systemString demoEnv 0))"
    "Some legacyData
       = (case protDataSet legacyOnly of None \<Rightarrow> None | Some table \<Rightarrow> table (systemString demoEnv 0))"
    "None = (case protDataSet selected of None \<Rightarrow> None | Some table \<Rightarrow> table (systemString demoEnv 0))"
    by (simp_all add: mapped_def legacyOnly_def ready_defs demoEnv_def)
  have d: "getLicenseServer demoEnv 0 pd ''license-request'' = Some demoServer" for pd
    by (simp add: demoEnv_def)
  have c: "\<not> isClearKey demoEnv 0 \<or> processClearKeyLicenseRequest demoEnv pd [1, 2, 3] = None"
    "isClearKey demoEnv 0 = False" for pd
    by (simp_all add: demoEnv_def)
  have u: "Some ''https://ls/a''
             = getServerURLFromMessage demoServer
                 (precedenceURL (Some mappedData) ''license-request''
                    (getLicenseServerURLFromInitData demoEnv 0
                       (getPSSHData demoEnv (tokenInitData (sessionToken demoMessage))))
                    (defaultURL demoMessage)) [1, 2, 3] ''license-request''"
    "Some ''https://ls/legacy''
       = getServerURLFromMessage demoServer
           (precedenceURL (Some legacyData) ''license-request''
              (getLicenseServerURLFromInitData demoEnv 0
                 (getPSSHData demoEnv (tokenInitData (sessionToken demoMessage))))
              (defaultURL demoMessage)) [1, 2, 3] ''license-request''"
    "Some ''https://ls/default''
       = getServerURLFromMessage demoServer
           (precedenceURL None ''license-request''
              (getLicenseServerURLFromInitData demoEnv 0
                 (getPSSHData demoEnv (tokenInitData (sessionToken demoMessage))))
              (defaultURL demoMessage)) [1, 2, 3] ''license-request''"
    "None
       = getServerURLFromMessage demoServer
           (precedenceURL None ''license-request''
              (getLicenseServerURLFromInitData demoEnv 0
                 (getPSSHData demoEnv (tokenInitData (sessionToken (demoMessage\<lparr>defaultURL := None\<rparr>)))))
              (defaultURL (demoMessage\<lparr>defaultURL := None\<rparr>))) [1, 2, 3] ''license-request''"
    by (simp_all add: demoServer_def demoEnv_def demoMessage_def mappedData_def legacyData_def
          precedenceURL_def serverURLEntry_def serverURLConfigured_def nonEmpty_def)
  have r: "0 = length (requests selected)" "0 = length (requests mapped)"
    "0 = length (requests legacyOnly)"
    by (simp_all add: mapped_def legacyOnly_def ready_defs)
  note a1 = license_url_precedence [OF k(1) m(1) m(2) t(1) p(1) d c(1) u(1) r(2)]
  note a2 = license_url_precedence [OF k(2) m(1) m(2) t(1) p(2) d c(1) u(2) r(3)]
  note a3 = license_url_precedence [OF k(3) m(1) m(2) t(1) p(3) d c(1) u(3) r(1)]
  note a4 = license_url_precedence [OF k(3) m(3) m(2) t(2) p(3) d c(1) u(4) r(1)]
  show ?thesis
    using k m(1) d [of None] c(2) a1 a2 a3 a4 by simp
qed

subsection \<open>Key sessions are not created twice\<close>






subsection \<open>The queue of pending batches\<close>


lemma createKeySession_keeps:
  "keySystem (stateOf (createKeySession E d cdm s)) = keySystem s"
  "protectionModel (stateOf (createKeySession E d cdm s)) = protectionModel s"
  "pendingNeedKeyData (stateOf (createKeySession E d cdm s)) = pendingNeedKeyData s"
  by (simp_all add: createKeySession_def emit_def split: option.splits ksval.splits)








lemma pending_emit [simp]: "pendingNeedKeyData (emit es s) = pendingNeedKeyData s"
  by (simp add: emit_def)

lemma pending_settle [simp]: "pendingNeedKeyData (settle out) = pendingNeedKeyData (stateOf out)"
  by (cases out) simp_all

lemma pending_onModel [simp]: "pendingNeedKeyData (stateOf (onModel es s)) = pendingNeedKeyData s"
  by (simp add: onModel_def)

lemma pending_createEach [simp]:
  "pendingNeedKeyData (stateOf (createEach E cs s)) = pendingNeedKeyData s"
proof (induction cs arbitrary: s)
  case Nil
  show ?case by simp
next
  case (Cons c cs)
  show ?case
    using createKeySession_keeps(3) [of E "initData c" "cdmData c" s] Cons.IH
    by (cases "createKeySession E (initData c) (cdmData c) s") simp_all
qed

lemma pending_replayBatch [simp]:
  "pendingNeedKeyData (stateOf (replayBatch E b s)) = pendingNeedKeyData s"
  by (induction b) (simp_all add: createKeySession_keeps(3))

lemma pending_replayPending [simp]:
  "pendingNeedKeyData (stateOf (replayPending E bs s)) = pendingNeedKeyData s"
proof (induction bs arbitrary: s)
  case Nil
  show ?case by simp
next
  case (Cons b bs)
  have "pendingNeedKeyData (stateOf (andThen (replayBatch E b s) (replayPending E bs)))
      = pendingNeedKeyData s"
    by (rule andThen_preserves [where P = "\<lambda>t. pendingNeedKeyData t = pendingNeedKeyData s"])
       (simp_all add: Cons.IH)
  then show ?case by simp
qed

lemma pending_onKeyMessage [simp]:
  "pendingNeedKeyData (stateOf (onKeyMessage E km s)) = pendingNeedKeyData s"
  by (simp add: onKeyMessage_def sendLicenseRequest_def Let_def split: option.splits ksval.splits)

lemma pending_setMediaElement [simp]:
  "pendingNeedKeyData (stateOf (setMediaElement e s)) = pendingNeedKeyData s"
  by (simp add: setMediaElement_def split: mediaElement.splits)

lemma pending_teardown [simp]:
  "pendingNeedKeyData (stateOf (teardown s)) = pendingNeedKeyData s"
  unfolding teardown_def Let_def
  by (intro andThen_preserves [where P = "\<lambda>t. pendingNeedKeyData t = pendingNeedKeyData s"])
     (simp_all add: abortTracked_def split: option.splits)

lemma pending_handlers [simp]:
  "pendingNeedKeyData (stateOf (ksAccessComplete E c ev s)) = pendingNeedKeyData s"
  "pendingNeedKeyData (stateOf (ksSelectedSelected E n err modelKs s)) = pendingNeedKeyData s"
  "pendingNeedKeyData (stateOf (onload x status readyState response s)) = pendingNeedKeyData s"
  "pendingNeedKeyData (stateOf (onloadend x status response s)) = pendingNeedKeyData s"
  "pendingNeedKeyData (stateOf (onServerCertificateUpdated err s)) = pendingNeedKeyData s"
  "pendingNeedKeyData (stateOf (onKeySessionCreated err s)) = pendingNeedKeyData s"
  "pendingNeedKeyData (stateOf (onKeyError c1 t1 d1 s)) = pendingNeedKeyData s"
  "pendingNeedKeyData (stateOf (onKeyStatusesChanged err3 s)) = pendingNeedKeyData s"
  "pendingNeedKeyData (stateOf (setProtectionData pd s)) = pendingNeedKeyData s"
  "pendingNeedKeyData (stateOf (setup_controller s)) = pendingNeedKeyData s"
  "pendingNeedKeyData (stateOf (setSessionType t s)) = pendingNeedKeyData s"
  by (simp_all add: ksAccessComplete_def ksSelectedSelected_def onload_def onloadend_def
        onServerCertificateUpdated_def onKeySessionCreated_def onKeyError_def
        onKeyStatusesChanged_def setProtectionData_def setup_controller_def
        setNeedFailureReport_def setSessionType_def createKeySession_keeps(3) Let_def
        split: option.splits ksval.splits)

lemma pending_ksSelectedAccessComplete [simp]:
  "pendingNeedKeyData (stateOf (ksSelectedAccessComplete n ev s)) = pendingNeedKeyData s"
  unfolding ksSelectedAccessComplete_def Let_def
  by (auto intro!: andThen_preserves [where P = "\<lambda>t. pendingNeedKeyData t = pendingNeedKeyData s"]
           split: option.splits)















end
